theory Spec2Isabelle
  imports Complex_Main "HOL-Library.AList"
begin

section \<open>Values, errors and parameter dictionaries\<close>

text \<open>
  The values that travel through \<^verbatim>\<open>run_capsule.py\<close> as parameters: what the command
  line and \<^verbatim>\<open>json.loads\<close> deliver for the fields of \<^verbatim>\<open>AppParams\<close>. Lists hold
  strings (every list-typed field of \<^verbatim>\<open>AppParams\<close> is a list of names); numbers are
  carried around and never computed with.
\<close>

datatype pval =
    VNone
  | VBool bool
  | VNum rat
  | VStr string
  | VStrs "string list"
  | VDict "(string \<times> pval) list"

text \<open>A Python \<^verbatim>\<open>dict\<close> with string keys, in insertion order.\<close>

type_synonym pdict = "(string \<times> pval) list"

text \<open>
  The exceptions of the program. \<open>LibraryError\<close> stands for whatever the external
  \<^verbatim>\<open>dynamic_routing_analysis.io_utils\<close> raises (a failed \<^verbatim>\<open>validate_params\<close>, a failed
  kernel build of the full model). \<open>OSError\<close> stands for the errors of the operating system
  other than a missing file or directory, which is \<open>FileNotFoundError\<close>.
\<close>

datatype error =
    FileNotFoundError
  | RecursionError
  | TypeError
  | KeyError
  | AttributeError
  | ValueError
  | OSError
  | InvalidIndexError
  | AssertionError
  | LibraryError string

text \<open>Python truthiness, as \<^verbatim>\<open>x or y\<close> reads it.\<close>

fun truthy :: "pval \<Rightarrow> bool" where
  "truthy VNone = False"
| "truthy (VBool b) = b"
| "truthy (VNum r) = (r \<noteq> 0)"
| "truthy (VStr s) = (s \<noteq> [])"
| "truthy (VStrs xs) = (xs \<noteq> [])"
| "truthy (VDict d) = (d \<noteq> [])"

text \<open>
  The elements \<^verbatim>\<open>set(v)\<close> iterates over: a list gives its elements, a string its
  characters, a dict its keys; the other values are not iterable.
\<close>

fun iter_strings :: "pval \<Rightarrow> error + string list" where
  "iter_strings VNone = Inl TypeError"
| "iter_strings (VBool b) = Inl TypeError"
| "iter_strings (VNum r) = Inl TypeError"
| "iter_strings (VStr s) = Inr (map (\<lambda>c. [c]) s)"
| "iter_strings (VStrs xs) = Inr xs"
| "iter_strings (VDict d) = Inr (map fst d)"

section \<open>AppParams\<close>

text \<open>
  The dataclass \<^verbatim>\<open>AppParams\<close> (lines 214-248). Python does not check the declared field
  types, so an instance is the dictionary of its fields; \<^verbatim>\<open>dataclasses.asdict\<close> is a
  copy of it.
\<close>

type_synonym AppParams = pdict

definition AppParams_fields :: "string list" where
  "AppParams_fields =
    [''session_id'', ''time_of_interest'', ''spontaneous_duration'', ''features_to_drop'',
     ''input_variables'', ''input_offsets'', ''input_window_lengths'', ''drop_variables'',
     ''unit_inclusion_criteria'', ''run_on_qc_units'', ''spike_bin_width'',
     ''areas_to_include'', ''areas_to_exclude'', ''orthogonalize_against_context'',
     ''quiescent_start_time'', ''quiescent_stop_time'', ''trial_start_time'',
     ''trial_stop_time'', ''intercept'']"

definition AppParams_defaults :: pdict where
  "AppParams_defaults =
    [(''time_of_interest'', VStr ''quiescent''),
     (''spontaneous_duration'', VNum 120),
     (''features_to_drop'', VNone),
     (''input_variables'', VNone),
     (''input_offsets'', VBool True),
     (''input_window_lengths'', VNone),
     (''drop_variables'', VNone),
     (''unit_inclusion_criteria'',
        VDict [(''isi_violations'', VNum (1 / 10)), (''presence_ratio'', VNum (99 / 100)),
               (''amplitude_cutoff'', VNum (1 / 10)), (''firing_rate'', VNum 1)]),
     (''run_on_qc_units'', VBool False),
     (''spike_bin_width'', VNum (25 / 1000)),
     (''areas_to_include'', VNone),
     (''areas_to_exclude'', VNone),
     (''orthogonalize_against_context'', VStrs [''facial_features'']),
     (''quiescent_start_time'', VNum (- 3 / 2)),
     (''quiescent_stop_time'', VNum 0),
     (''trial_start_time'', VNum (- 2)),
     (''trial_stop_time'', VNum 3),
     (''intercept'', VBool True)]"

text \<open>
  \<^verbatim>\<open>AppParams(session_id=session_id, **app_params)\<close> (line 300): a keyword given twice
  and a keyword that is no field are a \<^verbatim>\<open>TypeError\<close>; the other fields take their
  defaults.
\<close>

definition AppParams_init :: "string \<Rightarrow> pdict \<Rightarrow> error + AppParams" where
  "AppParams_init sid kwargs =
    (if ''session_id'' \<in> set (map fst kwargs) then Inl TypeError
     else if \<not> list_all (\<lambda>k. k \<in> set AppParams_fields) (map fst kwargs) then Inl TypeError
     else Inr (fold (\<lambda>(k, v). AList.update k v) kwargs
                 ((''session_id'', VStr sid) # AppParams_defaults)))"

definition asdict :: "AppParams \<Rightarrow> pdict" where
  "asdict app = app"

section \<open>The external library: RunParams, kernels, design matrix, fit\<close>

text \<open>
  \<^verbatim>\<open>io_utils.RunParams\<close> is not code of this repository. The object is modelled by what
  the program does to it: the session id it was built with and the updates it received,
  in order. What \<^verbatim>\<open>validate_params\<close> and \<^verbatim>\<open>get_params\<close> make of that is a parameter of
  the model (record \<open>env\<close> below).
\<close>

record RunParams =
  rp_session_id :: string
  rp_updates :: pdict

definition RunParams_init :: "string \<Rightarrow> RunParams" where
  "RunParams_init sid = \<lparr>rp_session_id = sid, rp_updates = []\<rparr>"

definition update_multiple_metrics :: "RunParams \<Rightarrow> pdict \<Rightarrow> RunParams" where
  "update_multiple_metrics io d = io\<lparr>rp_updates := rp_updates io @ d\<rparr>"

definition update_metric :: "RunParams \<Rightarrow> string \<Rightarrow> pval \<Rightarrow> RunParams" where
  "update_metric io k v = io\<lparr>rp_updates := rp_updates io @ [(k, v)]\<rparr>"

record kernel =
  function_call :: string
  kernel_args :: pdict

text \<open>
  The dictionary \<^verbatim>\<open>get_params()\<close> returns, with the three entries the program reads:
  \<^verbatim>\<open>run_params['input_variables']\<close>, \<^verbatim>\<open>run_params['kernels']\<close> and
  \<^verbatim>\<open>run_params['model_label']\<close>.
\<close>

record run_params =
  input_variables :: "string list"
  kernels :: "(string \<times> kernel) list"
  model_label :: string
  other_params :: pdict

text \<open>
  The design matrix (an xarray \<^verbatim>\<open>DataArray\<close> over timestamps and weights): one column of
  data per weight label. The type \<open>'a\<close> is the array payload, which the program never
  looks into.
\<close>

record 'a design_matrix =
  columns :: "(string \<times> 'a) list"
  timestamps :: 'a

definition weights :: "'a design_matrix \<Rightarrow> string list" where
  "weights dm = map fst (columns dm)"

definition data :: "'a design_matrix \<Rightarrow> 'a list" where
  "data dm = map snd (columns dm)"

definition copy_dm :: "'a design_matrix \<Rightarrow> 'a design_matrix" where
  "copy_dm dm = dm"

fun sel_columns :: "(string \<times> 'a) list \<Rightarrow> string list \<Rightarrow> error + (string \<times> 'a) list" where
  "sel_columns cols [] = Inr []"
| "sel_columns cols (l # ls) =
    (case map_of cols l of
       None \<Rightarrow> Inl KeyError
     | Some c \<Rightarrow>
        (case sel_columns cols ls of
           Inl e \<Rightarrow> Inl e
         | Inr r \<Rightarrow> Inr ((l, c) # r)))"

text \<open>
  \<^verbatim>\<open>design_matrix.sel(weights=labels)\<close>: label-based selection along the weight axis.
  It returns a new array with the columns of the labels, in the order of the labels; the
  index must be unique and hold every label. An empty list of labels is no error: the
  result has no column.
\<close>

definition sel :: "'a design_matrix \<Rightarrow> string list \<Rightarrow> error + 'a design_matrix" where
  "sel dm labels =
    (if \<not> distinct (weights dm) then Inl InvalidIndexError
     else case sel_columns (columns dm) labels of
            Inl e \<Rightarrow> Inl e
          | Inr cols \<Rightarrow> Inr (dm\<lparr>columns := cols\<rparr>))"

record 'a fit =
  failed_kernels :: "string list"
  fit_entries :: "(string \<times> 'a) list"

text \<open>
  The collaborators of \<^verbatim>\<open>process_session\<close> and \<^verbatim>\<open>main\<close> whose code is not in
  \<^verbatim>\<open>run_capsule.py\<close>:
  \<^item> \<open>get_nwb\<close>: \<^verbatim>\<open>utils.get_nwb(session_id, raise_on_missing=True, raise_on_bad_file=True)\<close>;
  \<^item> \<open>first_structure\<close>: lines 100-102, the first structure with at least 50 units whose
    name is not lower case, if any;
  \<^item> \<open>validate_params\<close>, \<open>get_params\<close>: the methods of \<^verbatim>\<open>io_utils.RunParams\<close>
    (\<open>None\<close>: the validation passes);
  \<^item> \<open>build_design\<close>: lines 128-134, from \<^verbatim>\<open>get_session_data\<close> to \<^verbatim>\<open>design.get_X()\<close>
    and the two entries added to \<^verbatim>\<open>fit\<close>;
  \<^item> \<open>list_set\<close>: \<^verbatim>\<open>list(set(xs))\<close>, whose order Python does not fix;
  \<^item> \<open>session_ids\<close>: lines 279-281, the session ids of the filtered session table;
  \<^item> \<open>is_pipeline\<close>, \<open>nwb_stems\<close>: \<^verbatim>\<open>utils.is_pipeline()\<close> and the stems of
    \<^verbatim>\<open>utils.get_nwb_paths()\<close>.
\<close>

record ('s, 'a) env =
  get_nwb :: "string \<Rightarrow> error + 's"
  first_structure :: "'s \<Rightarrow> string option"
  validate_params :: "RunParams \<Rightarrow> error option"
  get_params :: "RunParams \<Rightarrow> error + run_params"
  build_design :: "run_params \<Rightarrow> 's \<Rightarrow> error + ('a design_matrix \<times> 'a fit)"
  list_set :: "string list \<Rightarrow> string list"
  session_ids :: "string list"
  is_pipeline :: bool
  nwb_stems :: "string list"

section \<open>The file system under /results\<close>

text \<open>A path is a directory and a file name in it.\<close>

type_synonym path = "string \<times> string"

record 'a dm_dict =
  dd_data :: "'a list"
  dd_weights :: "string list"
  dd_timestamps :: 'a

text \<open>The dictionary that is pickled into one output file (lines 142-149, 192-199).\<close>

record 'a artifact =
  a_file :: path
  a_design_matrix :: "'a dm_dict"
  a_fit :: "'a fit"
  a_run_params :: run_params

datatype 'a content = Pickle "'a artifact" | Placeholder

text \<open>
  The state of the output tree: the directories that exist and the files written, in
  the order of the writes (a later write to a path replaces an earlier one).
\<close>

record 'a world =
  dirs :: "string list"
  writes :: "(path \<times> 'a content) list"

definition mkdir :: "string \<Rightarrow> 'a world \<Rightarrow> 'a world" where
  "mkdir d w = w\<lparr>dirs := List.insert d (dirs w)\<rparr>"

text \<open>
  Why \<^verbatim>\<open>open(path, 'wb')\<close> fails, if it does. The output tree is flat: the directories
  of \<open>dirs\<close> hold files only, and nothing is written outside them. So the directory of the
  path must be one of \<open>dirs\<close> and the name a plain file name: Python refuses a NUL
  character (\<^verbatim>\<open>ValueError\<close>); a name whose first component is longer than 255 bytes is
  refused by the system (\<^verbatim>\<open>OSError\<close>, file name too long); a name that holds a slash
  names a file in a directory that is not there (\<^verbatim>\<open>FileNotFoundError\<close>); the empty name
  is the directory itself (\<^verbatim>\<open>OSError\<close>).
\<close>

definition write_error :: "'a world \<Rightarrow> path \<Rightarrow> error option" where
  "write_error w p =
    (if CHR 0x00 \<in> set (fst p @ snd p) then Some ValueError
     else if fst p \<notin> set (dirs w) then Some FileNotFoundError
     else if 255 < length (takeWhile (\<lambda>c. c \<noteq> CHR ''/'') (snd p)) then Some OSError
     else if CHR ''/'' \<in> set (snd p) then Some FileNotFoundError
     else if snd p = [] then Some OSError
     else None)"

text \<open>\<^verbatim>\<open>path.write_bytes(...)\<close> (lines 140 and 190).\<close>

definition write_bytes :: "path \<Rightarrow> 'a content \<Rightarrow> 'a world \<Rightarrow> (error \<times> 'a world) + 'a world" where
  "write_bytes p c w =
    (case write_error w p of
       Some e \<Rightarrow> Inl (e, w)
     | None \<Rightarrow> Inr (w\<lparr>writes := writes w @ [(p, c)]\<rparr>))"

definition files_in :: "'a world \<Rightarrow> string \<Rightarrow> string list" where
  "files_in w d = map (snd \<circ> fst) (filter (\<lambda>e. fst (fst e) = d) (writes w))"

definition dir_nonempty :: "'a world \<Rightarrow> string \<Rightarrow> bool" where
  "dir_nonempty w d = (d \<in> set (dirs w) \<and> files_in w d \<noteq> [])"

definition output_dirs :: "string \<Rightarrow> string" where
  "output_dirs subfolder = ''/results/'' @ subfolder"

definition dm_dump :: "'a design_matrix \<Rightarrow> 'a dm_dict" where
  "dm_dump dm = \<lparr>dd_data = data dm, dd_weights = weights dm, dd_timestamps = timestamps dm\<rparr>"

section \<open>process_session: the dropout models (lines 153-201)\<close>

text \<open>\<^verbatim>\<open>weight.split('_')[0]\<close>: the prefix before the first underscore.\<close>

definition group_token :: "string \<Rightarrow> string" where
  "group_token weight = takeWhile (\<lambda>c. c \<noteq> CHR ''_'') weight"

text \<open>
  Line 156: \<^verbatim>\<open>[run_params['kernels'][key]['function_call'] for key in ...]\<close>; a key
  without a kernel is a \<^verbatim>\<open>KeyError\<close>.
\<close>

fun function_calls :: "(string \<times> kernel) list \<Rightarrow> string list \<Rightarrow> error + string list" where
  "function_calls ks [] = Inr []"
| "function_calls ks (key # keys) =
    (case map_of ks key of
       None \<Rightarrow> Inl KeyError
     | Some k \<Rightarrow>
        (case function_calls ks keys of
           Inl e \<Rightarrow> Inl e
         | Inr cs \<Rightarrow> Inr (function_call k # cs)))"

text \<open>Lines 154-158: the features to drop, deduplicated through a set.\<close>

definition features_to_drop ::
  "('s, 'a) env \<Rightarrow> AppParams \<Rightarrow> run_params \<Rightarrow> error + string list" where
  "features_to_drop E app rp =
    (case map_of app ''features_to_drop'' of
       None \<Rightarrow> Inl AttributeError
     | Some v \<Rightarrow>
        if truthy v then
          (case iter_strings v of
             Inl e \<Rightarrow> Inl e
           | Inr xs \<Rightarrow> Inr (list_set E xs))
        else
          (case function_calls (kernels rp) (input_variables rp) of
             Inl e \<Rightarrow> Inl e
           | Inr cs \<Rightarrow> Inr (list_set E (input_variables rp @ cs))))"

text \<open>
  The variables of \<^verbatim>\<open>process_session\<close> that the loop over the features reads and never
  assigns. They are threaded through the loop, so that what an iteration leaves for the
  next one is part of the model.
\<close>

record 'a frame =
  fr_session_id :: string
  fr_app_params :: AppParams
  fr_run_params :: run_params
  fr_design_matrix :: "'a design_matrix"
  fr_fit :: "'a fit"

text \<open>Lines 170-172: the parameters of the reduced model of one feature.\<close>

definition reduced_io_params :: "string \<Rightarrow> AppParams \<Rightarrow> string \<Rightarrow> RunParams" where
  "reduced_io_params sid app feature =
    update_multiple_metrics
      (update_multiple_metrics (RunParams_init sid) (asdict app))
      [(''drop_variables'', VStrs [feature]), (''model_label'', VStr (''drop_'' @ feature))]"

text \<open>Line 177: the weights whose group token is a key of the reduced kernels.\<close>

definition filtered_weights :: "'a design_matrix \<Rightarrow> run_params \<Rightarrow> string list" where
  "filtered_weights dm rpr =
    filter (\<lambda>weight. group_token weight \<in> set (map fst (kernels rpr))) (weights dm)"

definition inputs_path :: "string \<Rightarrow> string \<Rightarrow> string \<Rightarrow> path" where
  "inputs_path subfolder sid model_name =
    (output_dirs subfolder, sid @ ''_'' @ model_name @ ''_inputs.pkl'')"

text \<open>
  One iteration of the loop of line 159. An exception leaves the loop (and
  \<^verbatim>\<open>process_session\<close>): the result is \<open>Inl\<close> with the files as they are then.
\<close>

definition dropout_step ::
  "('s, 'a) env \<Rightarrow> 'a frame \<times> 'a world \<Rightarrow> string \<Rightarrow> (error \<times> 'a world) + ('a frame \<times> 'a world)" where
  "dropout_step E st feature =
    (let fr = fst st; w = snd st;
         design_matrix_reduced = copy_dm (fr_design_matrix fr)
     in if feature \<notin> set (failed_kernels (fr_fit fr)) then
          (let io_params_reduced =
                 reduced_io_params (fr_session_id fr) (fr_app_params fr) feature
           in case validate_params E io_params_reduced of
                Some e \<Rightarrow> Inl (e, w)
              | None \<Rightarrow>
                 (case get_params E io_params_reduced of
                    Inl e \<Rightarrow> Inl (e, w)
                  | Inr run_params_reduced \<Rightarrow>
                     (case sel design_matrix_reduced
                             (filtered_weights (fr_design_matrix fr) run_params_reduced) of
                        Inl e \<Rightarrow> Inl (e, w)
                      | Inr design_matrix_reduced' \<Rightarrow>
                         (let model_name = model_label run_params_reduced;
                              output_path = inputs_path ''reduced'' (fr_session_id fr) model_name
                          in case write_bytes output_path
                                    (Pickle \<lparr>a_file = output_path,
                                             a_design_matrix = dm_dump design_matrix_reduced',
                                             a_fit = fr_fit fr,
                                             a_run_params = fr_run_params fr\<rparr>) w of
                               Inl ew \<Rightarrow> Inl ew
                             | Inr w' \<Rightarrow> Inr (fr, w')))))
        else Inr (fr, w))"

fun dropout_loop ::
  "('s, 'a) env \<Rightarrow> 'a frame \<times> 'a world \<Rightarrow> string list \<Rightarrow> (error \<times> 'a world) + ('a frame \<times> 'a world)" where
  "dropout_loop E st [] = Inr st"
| "dropout_loop E st (feature # features) =
    (case dropout_step E st feature of
       Inl ew \<Rightarrow> Inl ew
     | Inr st' \<Rightarrow> dropout_loop E st' features)"

text \<open>
  What one iteration writes for a feature when it runs on its own, with the output
  directory in place and nothing written yet (nothing, if it raises).
\<close>

definition step_writes :: "('s, 'a) env \<Rightarrow> 'a frame \<Rightarrow> string \<Rightarrow> (path \<times> 'a content) list" where
  "step_writes E fr feature =
    (case dropout_step E (fr, \<lparr>dirs = [output_dirs ''reduced''], writes = []\<rparr>) feature of
       Inl ew \<Rightarrow> []
     | Inr st \<Rightarrow> writes (snd st))"

section \<open>process_session (lines 78-201)\<close>

text \<open>Lines 98-105: test mode overwrites four fields of the parameters.\<close>

definition test_params :: "('s, 'a) env \<Rightarrow> 's \<Rightarrow> AppParams \<Rightarrow> AppParams" where
  "test_params E session app =
    AList.update ''run_on_qc_units'' (VBool True)
      (AList.update ''spike_bin_width'' (VNum (1 / 2))
        (AList.update ''time_of_interest'' (VStr ''full_trial'')
          (AList.update ''areas_to_include''
             (case first_structure E session of None \<Rightarrow> VNone | Some s \<Rightarrow> VStrs [s]) app)))"

text \<open>Lines 123-125: the parameters of the full model.\<close>

definition full_io_params :: "string \<Rightarrow> AppParams \<Rightarrow> RunParams" where
  "full_io_params sid app =
    update_metric (update_multiple_metrics (RunParams_init sid) (asdict app))
      ''model_label'' (VStr ''fullmodel'')"

definition process_session ::
  "('s, 'a) env \<Rightarrow> string \<Rightarrow> AppParams \<Rightarrow> int \<Rightarrow> 'a world \<Rightarrow> (error \<times> 'a world) + 'a world" where
  "process_session E sid app0 test w0 =
    (case get_nwb E sid of
       Inl e \<Rightarrow>
        if e = FileNotFoundError \<or> e = RecursionError then Inr w0 else Inl (e, w0)
     | Inr session \<Rightarrow>
        (let app = (if test \<noteq> 0 then test_params E session app0 else app0);
             w = mkdir (output_dirs ''reduced'') (mkdir (output_dirs ''full'') w0);
             io_params = full_io_params sid app
         in case validate_params E io_params of
              Some e \<Rightarrow> Inl (e, w)
            | None \<Rightarrow>
               (case get_params E io_params of
                  Inl e \<Rightarrow> Inl (e, w)
                | Inr rp \<Rightarrow>
                   (case build_design E rp session of
                      Inl e \<Rightarrow> Inl (e, w)
                    | Inr (dm, ft) \<Rightarrow>
                       (let output_path = inputs_path ''full'' sid (model_label rp)
                        in case write_bytes output_path
                                  (Pickle \<lparr>a_file = output_path,
                                           a_design_matrix = dm_dump dm,
                                           a_fit = ft,
                                           a_run_params = rp\<rparr>) w of
                             Inl ew \<Rightarrow> Inl ew
                           | Inr w1 \<Rightarrow>
                              (case features_to_drop E app rp of
                                 Inl e \<Rightarrow> Inl (e, w1)
                               | Inr features \<Rightarrow>
                                  (case dropout_loop E
                                          (\<lparr>fr_session_id = sid, fr_app_params = app,
                                            fr_run_params = rp, fr_design_matrix = dm,
                                            fr_fit = ft\<rparr>, w1) features of
                                     Inl ew \<Rightarrow> Inl ew
                                   | Inr st \<Rightarrow> Inr (snd st))))))))"

text \<open>
  The session reaches the loop of line 159: its data loads, the parameters of the full
  model pass the validation and resolve, the design matrix is built, the artifact of the
  full model is written and the features to drop are derived. Then \<open>fr\<close> holds the
  variables of the session, \<open>w1\<close> the files, \<open>features\<close> the list the loop runs over.
\<close>

definition enters_loop ::
  "('s, 'a) env \<Rightarrow> string \<Rightarrow> AppParams \<Rightarrow> int \<Rightarrow> 'a world \<Rightarrow> 'a frame \<Rightarrow> 'a world \<Rightarrow> string list \<Rightarrow> bool" where
  "enters_loop E sid app0 test w0 fr w1 features =
    (case get_nwb E sid of
       Inl e \<Rightarrow> False
     | Inr session \<Rightarrow>
        fr_session_id fr = sid
        \<and> fr_app_params fr = (if test \<noteq> 0 then test_params E session app0 else app0)
        \<and> validate_params E (full_io_params sid (fr_app_params fr)) = None
        \<and> get_params E (full_io_params sid (fr_app_params fr)) = Inr (fr_run_params fr)
        \<and> build_design E (fr_run_params fr) session = Inr (fr_design_matrix fr, fr_fit fr)
        \<and> write_bytes (inputs_path ''full'' sid (model_label (fr_run_params fr)))
             (Pickle \<lparr>a_file = inputs_path ''full'' sid (model_label (fr_run_params fr)),
                     a_design_matrix = dm_dump (fr_design_matrix fr),
                     a_fit = fr_fit fr,
                     a_run_params = fr_run_params fr\<rparr>)
             (mkdir (output_dirs ''reduced'') (mkdir (output_dirs ''full'') w0)) = Inr w1
        \<and> features_to_drop E (fr_app_params fr) (fr_run_params fr) = Inr features)"

section \<open>main (lines 253-310)\<close>

text \<open>
  What \<^verbatim>\<open>parse_args\<close> returns, as far as \<^verbatim>\<open>main\<close> reads it: \<^verbatim>\<open>--session_id\<close>,
  \<^verbatim>\<open>--test\<close>, the options named after the other fields of \<^verbatim>\<open>AppParams\<close> (those given
  on the command line; \<^verbatim>\<open>parse_args\<close> raises when one of them is a list), and
  \<^verbatim>\<open>json.loads(args.override_params_json)\<close>, a dictionary.
\<close>

record args =
  arg_session_id :: "string option"
  arg_test :: int
  arg_fields :: pdict
  override_params :: pdict

text \<open>\<^verbatim>\<open>getattr(args, name, None)\<close>, with Python's \<^verbatim>\<open>None\<close> as \<open>None\<close>.\<close>

definition getattr_args :: "args \<Rightarrow> string \<Rightarrow> pval option" where
  "getattr_args a name =
    (if name = ''session_id'' then map_option VStr (arg_session_id a)
     else case map_of (arg_fields a) name of
            None \<Rightarrow> None
          | Some VNone \<Rightarrow> None
          | Some v \<Rightarrow> Some v)"

text \<open>Lines 265-268: the fields given on the command line.\<close>

definition cli_app_params :: "string list \<Rightarrow> (string \<Rightarrow> 'v option) \<Rightarrow> (string \<times> 'v) list" where
  "cli_app_params field_names getattr =
    fold (\<lambda>name app_params.
            case getattr name of
              None \<Rightarrow> app_params
            | Some val \<Rightarrow> AList.update name val app_params) field_names []"

text \<open>Lines 270-275: the override map is written over them, key by key.\<close>

definition apply_overrides :: "(string \<times> 'v) list \<Rightarrow> (string \<times> 'v) list \<Rightarrow> (string \<times> 'v) list" where
  "apply_overrides overrides app_params =
    (if overrides \<noteq> [] then fold (\<lambda>(k, v) d. AList.update k v d) overrides app_params
     else app_params)"

definition main_app_params :: "args \<Rightarrow> pdict" where
  "main_app_params a =
    apply_overrides (override_params a) (cli_app_params AppParams_fields (getattr_args a))"

text \<open>
  Modelled from the spec: \<^verbatim>\<open>utils.ensure_nonempty_results_dirs\<close>, whose code is in the
  repository's \<^verbatim>\<open>utils\<close> module and not in \<^verbatim>\<open>run_capsule.py\<close>. The spec: both output
  directories exist and are non-empty after a full run, "satisfied by writing a placeholder
  if no real artifact was produced". The name of the placeholder file is not given.
\<close>

definition ensure_nonempty_results_dirs :: "string list \<Rightarrow> 'a world \<Rightarrow> 'a world" where
  "ensure_nonempty_results_dirs ds w0 =
    fold (\<lambda>d w. let w1 = mkdir d w
                in if files_in w1 d = [] then w1\<lparr>writes := writes w1 @ [((d, ''placeholder''), Placeholder)]\<rparr>
                   else w1) ds w0"

text \<open>
  Lines 298-308: one session after the other. Every exception of a session is caught
  and logged; in test mode the loop ends after the first session.
\<close>

fun session_loop :: "('s, 'a) env \<Rightarrow> pdict \<Rightarrow> int \<Rightarrow> string list \<Rightarrow> 'a world \<Rightarrow> 'a world" where
  "session_loop E app_params test [] w = w"
| "session_loop E app_params test (sid # sids) w =
    (let w' = (case AppParams_init sid app_params of
                 Inl e \<Rightarrow> w
               | Inr app \<Rightarrow>
                  (case process_session E sid app test w of
                     Inl ew \<Rightarrow> snd ew
                   | Inr w1 \<Rightarrow> w1))
     in if test \<noteq> 0 then w' else session_loop E app_params test sids w')"

datatype outcome = Completed | Exited | Raised error

definition main :: "('s, 'a) env \<Rightarrow> args \<Rightarrow> 'a world \<Rightarrow> outcome \<times> 'a world" where
  "main E a w =
    (let app_params = main_app_params a;
         finish = (\<lambda>sids. (Completed,
                     ensure_nonempty_results_dirs [''/results/full'', ''/results/reduced'']
                       (session_loop E app_params (arg_test a) sids w)))
     in case arg_session_id a of
          Some sid \<Rightarrow>
            if sid \<notin> set (session_ids E) then (Exited, w) else finish [sid]
        | None \<Rightarrow>
            if is_pipeline E then
              (let sids = list_set E (filter (\<lambda>s. s \<in> set (nwb_stems E)) (session_ids E))
               in if \<not> length sids \<le> 1 then (Raised AssertionError, w) else finish sids)
            else finish (session_ids E))"

section \<open>A concrete setting\<close>

text \<open>
  A small instance of the external library, for evaluating the program on concrete
  sessions. \<^verbatim>\<open>get_params\<close> reads the last value given for \<^verbatim>\<open>input_variables\<close>
  (default: licks and running), \<^verbatim>\<open>drop_variables\<close> and \<^verbatim>\<open>model_label\<close>, and
  keeps one kernel per input variable that is not dropped, by its name or by the name of
  its function call. The strict variant of \<^verbatim>\<open>validate_params\<close> refuses a drop variable
  that names neither. The design matrix has the columns licks_0 and licks_1 for licks and
  v_0 for any other variable v.
\<close>

definition toy_lookup :: "RunParams \<Rightarrow> string \<Rightarrow> pval" where
  "toy_lookup io k = (case map_of (rev (rp_updates io)) k of None \<Rightarrow> VNone | Some v \<Rightarrow> v)"

definition toy_inputs :: "RunParams \<Rightarrow> string list" where
  "toy_inputs io =
    (case toy_lookup io ''input_variables'' of
       VStrs xs \<Rightarrow> xs
     | _ \<Rightarrow> [''licks'', ''running''])"

definition toy_drops :: "RunParams \<Rightarrow> string list" where
  "toy_drops io = (case toy_lookup io ''drop_variables'' of VStrs xs \<Rightarrow> xs | _ \<Rightarrow> [])"

definition toy_call :: "string \<Rightarrow> string" where
  "toy_call v = (if v = ''licks'' then ''discrete'' else ''continuous'')"

definition toy_get_params :: "RunParams \<Rightarrow> error + run_params" where
  "toy_get_params io =
    (let kept = filter (\<lambda>v. v \<notin> set (toy_drops io) \<and> toy_call v \<notin> set (toy_drops io))
                  (toy_inputs io)
     in Inr \<lparr>input_variables = kept,
             kernels = map (\<lambda>v. (v, \<lparr>function_call = toy_call v, kernel_args = []\<rparr>)) kept,
             model_label = (case toy_lookup io ''model_label'' of VStr s \<Rightarrow> s | _ \<Rightarrow> []),
             other_params = []\<rparr>)"

definition toy_validate :: "bool \<Rightarrow> RunParams \<Rightarrow> error option" where
  "toy_validate strict io =
    (if strict \<and>
        \<not> list_all (\<lambda>d. d \<in> set (toy_inputs io) \<or> d \<in> set (map toy_call (toy_inputs io)))
             (toy_drops io)
     then Some (LibraryError ''unknown drop variable'') else None)"

definition toy_columns :: "string \<Rightarrow> (string \<times> nat) list" where
  "toy_columns v =
    (if v = ''licks'' then [(''licks_0'', 0), (''licks_1'', 1)] else [(v @ ''_0'', 2)])"

definition toy_build :: "string list \<Rightarrow> run_params \<Rightarrow> unit \<Rightarrow> error + (nat design_matrix \<times> nat fit)" where
  "toy_build failed rp session =
    Inr (\<lparr>columns = concat (map (toy_columns \<circ> fst) (kernels rp)), timestamps = 0\<rparr>,
         \<lparr>failed_kernels = failed, fit_entries = []\<rparr>)"

definition toy_env :: "string list \<Rightarrow> bool \<Rightarrow> (unit, nat) env" where
  "toy_env failed strict =
    \<lparr>get_nwb = (\<lambda>sid. if sid \<in> set [''S1'', ''S2''] then Inr () else Inl FileNotFoundError),
     first_structure = (\<lambda>session. None),
     validate_params = toy_validate strict,
     get_params = toy_get_params,
     build_design = toy_build failed,
     list_set = remdups,
     session_ids = [''S1'', ''S2''],
     is_pipeline = False,
     nwb_stems = []\<rparr>"

text \<open>An instance of \<^verbatim>\<open>AppParams\<close> with the defaults and the given fields.\<close>

definition toy_app :: "string \<Rightarrow> pdict \<Rightarrow> AppParams" where
  "toy_app sid kwargs =
    fold (\<lambda>(k, v). AList.update k v) kwargs ((''session_id'', VStr sid) # AppParams_defaults)"

definition toy_rp :: run_params where
  "toy_rp =
    \<lparr>input_variables = [''licks'', ''running''],
     kernels = [(''licks'', \<lparr>function_call = ''discrete'', kernel_args = []\<rparr>),
                (''running'', \<lparr>function_call = ''continuous'', kernel_args = []\<rparr>)],
     model_label = ''fullmodel'', other_params = []\<rparr>"

definition toy_dm :: "nat design_matrix" where
  "toy_dm = \<lparr>columns = [(''licks_0'', 0), (''licks_1'', 1), (''running_0'', 2)], timestamps = 0\<rparr>"

definition toy_frame :: "string list \<Rightarrow> pdict \<Rightarrow> nat frame" where
  "toy_frame failed kwargs =
    \<lparr>fr_session_id = ''S1'', fr_app_params = toy_app ''S1'' kwargs, fr_run_params = toy_rp,
     fr_design_matrix = toy_dm, fr_fit = \<lparr>failed_kernels = failed, fit_entries = []\<rparr>\<rparr>"

text \<open>The same library with another iteration order of sets.\<close>

definition toy_env_rev :: "(unit, nat) env" where
  "toy_env_rev = (toy_env [] False)\<lparr>list_set := rev \<circ> remdups\<rparr>"

definition toy_strict_rev :: "(unit, nat) env" where
  "toy_strict_rev = (toy_env [] True)\<lparr>list_set := rev \<circ> remdups\<rparr>"

text \<open>A model with the single input variable licks, and licks the feature to drop.\<close>

definition licks_app :: AppParams where
  "licks_app =
    toy_app ''S1'' [(''input_variables'', VStrs [''licks'']), (''features_to_drop'', VStrs [''licks''])]"

definition licks_frame :: "nat frame" where
  "licks_frame =
    \<lparr>fr_session_id = ''S1'', fr_app_params = licks_app,
     fr_run_params =
       \<lparr>input_variables = [''licks''],
        kernels = [(''licks'', \<lparr>function_call = ''discrete'', kernel_args = []\<rparr>)],
        model_label = ''fullmodel'', other_params = []\<rparr>,
     fr_design_matrix = \<lparr>columns = [(''licks_0'', 0), (''licks_1'', 1)], timestamps = 0\<rparr>,
     fr_fit = \<lparr>failed_kernels = [], fit_entries = []\<rparr>\<rparr>"

definition results_world :: "nat world" where
  "results_world = \<lparr>dirs = [''/results/reduced'', ''/results/full''], writes = []\<rparr>"

text \<open>The files of the session S1 when its loop over the features begins.\<close>

definition full_world :: "nat world" where
  "full_world =
    \<lparr>dirs = [''/results/reduced'', ''/results/full''],
     writes =
       [((''/results/full'', ''S1_fullmodel_inputs.pkl''),
         Pickle \<lparr>a_file = (''/results/full'', ''S1_fullmodel_inputs.pkl''),
                 a_design_matrix =
                   \<lparr>dd_data = [0, 1, 2],
                    dd_weights = [''licks_0'', ''licks_1'', ''running_0''],
                    dd_timestamps = 0\<rparr>,
                 a_fit = \<lparr>failed_kernels = [], fit_entries = []\<rparr>,
                 a_run_params = toy_rp\<rparr>)]\<rparr>"

definition empty_world :: "nat world" where
  "empty_world = \<lparr>dirs = [], writes = []\<rparr>"

text \<open>The written files as (directory, name, weights of the design matrix, model label of the parameters).\<close>

definition listing :: "'a world \<Rightarrow> (string \<times> string \<times> string list \<times> string) list" where
  "listing w =
    map (\<lambda>e. case snd e of
               Pickle a \<Rightarrow> (fst (fst e), snd (fst e), dd_weights (a_design_matrix a),
                            model_label (a_run_params a))
             | Placeholder \<Rightarrow> (fst (fst e), snd (fst e), [], [])) (writes w)"

text \<open>The listing of the files a session leaves when it returns, and when it raises.\<close>

definition session_listing ::
  "(error \<times> 'a world) + 'a world \<Rightarrow> (string \<times> string \<times> string list \<times> string) list option" where
  "session_listing r = (case r of Inl ew \<Rightarrow> None | Inr w \<Rightarrow> Some (listing w))"

definition failure_listing ::
  "(error \<times> 'a world) + 'a world \<Rightarrow> (error \<times> (string \<times> string \<times> string list \<times> string) list) option" where
  "failure_listing r = (case r of Inl ew \<Rightarrow> Some (fst ew, listing (snd ew)) | Inr w \<Rightarrow> None)"

section \<open>Helper lemmas\<close>

lemma sel_columns_fst: "sel_columns cols ls = Inr r \<Longrightarrow> map fst r = ls"
  by (induction ls arbitrary: r) (auto split: option.splits sum.splits)

lemma sel_columns_subset: "sel_columns cols ls = Inr r \<Longrightarrow> set r \<subseteq> set cols"
  by (induction ls arbitrary: r) (auto split: option.splits sum.splits dest: map_of_SomeD)

lemma sel_columns_ok: "set ls \<subseteq> fst ` set cols \<Longrightarrow> \<exists>r. sel_columns cols ls = Inr r"
proof (induction ls)
  case Nil
  then show ?case by simp
next
  case (Cons l ls)
  then obtain r where r: "sel_columns cols ls = Inr r" by auto
  from Cons.prems have "l \<in> fst ` set cols" by simp
  then obtain c where "map_of cols l = Some c"
    by (metis map_of_eq_None_iff not_Some_eq)
  with r show ?case by simp
qed

lemma sel_Inr:
  assumes "sel dm ls = Inr dm'"
  shows "weights dm' = ls" and "timestamps dm' = timestamps dm" and "set (columns dm') \<subseteq> set (columns dm)"
    and "distinct (weights dm)"
  using assms sel_columns_subset [of "columns dm" ls]
  by (auto simp: sel_def weights_def split: if_splits sum.splits dest: sel_columns_fst)

lemma sel_ok:
  assumes "distinct (weights dm)" and "set ls \<subseteq> set (weights dm)"
  shows "\<exists>dm'. sel dm ls = Inr dm'"
proof -
  from assms(2) have "set ls \<subseteq> fst ` set (columns dm)" by (simp add: weights_def)
  then obtain r where "sel_columns (columns dm) ls = Inr r" using sel_columns_ok by blast
  with assms(1) show ?thesis by (simp add: sel_def)
qed

lemma filtered_weights_subset: "set (filtered_weights dm rpr) \<subseteq> set (weights dm)"
  by (auto simp: filtered_weights_def)

lemma dropout_step_failed:
  "f \<in> set (failed_kernels (fr_fit fr)) \<Longrightarrow> dropout_step E (fr, w) f = Inr (fr, w)"
  by (simp add: dropout_step_def)

lemma write_bytes_Inr:
  "write_bytes p c w = Inr w' \<longleftrightarrow> write_error w p = None \<and> w' = w\<lparr>writes := writes w @ [(p, c)]\<rparr>"
  by (auto simp: write_bytes_def split: option.splits)

lemma write_bytes_Inl: "write_bytes p c w = Inl ew \<Longrightarrow> snd ew = w"
  by (auto simp: write_bytes_def split: option.splits)

lemma write_error_member:
  "write_error w p = None \<Longrightarrow> fst p \<in> set (dirs w') \<Longrightarrow> write_error w' p = None"
  by (simp add: write_error_def split: if_splits)

lemma dropout_step_Inr:
  assumes "dropout_step E (fr, w) f = Inr st'" and "f \<notin> set (failed_kernels (fr_fit fr))"
  obtains rpr dmr where
    "validate_params E (reduced_io_params (fr_session_id fr) (fr_app_params fr) f) = None"
    "get_params E (reduced_io_params (fr_session_id fr) (fr_app_params fr) f) = Inr rpr"
    "sel (fr_design_matrix fr) (filtered_weights (fr_design_matrix fr) rpr) = Inr dmr"
    "write_error w (inputs_path ''reduced'' (fr_session_id fr) (model_label rpr)) = None"
    "st' = (fr, w\<lparr>writes := writes w @
             [(inputs_path ''reduced'' (fr_session_id fr) (model_label rpr),
               Pickle \<lparr>a_file = inputs_path ''reduced'' (fr_session_id fr) (model_label rpr),
                       a_design_matrix = dm_dump dmr,
                       a_fit = fr_fit fr,
                       a_run_params = fr_run_params fr\<rparr>)]\<rparr>)"
  using assms
  by (auto simp: dropout_step_def Let_def copy_dm_def write_bytes_Inr
           split: option.splits sum.splits if_splits)

lemma dropout_step_frame: "dropout_step E st f = Inr st' \<Longrightarrow> fst st' = fst st"
  by (auto simp: dropout_step_def Let_def write_bytes_Inr split: option.splits sum.splits if_splits)

lemma dropout_loop_frame: "dropout_loop E st fs = Inr st' \<Longrightarrow> fst st' = fst st"
  by (induction fs arbitrary: st) (auto split: sum.splits dest: dropout_step_frame)

lemma dropout_loop_append:
  "dropout_loop E st (xs @ ys) =
     (case dropout_loop E st xs of Inl ew \<Rightarrow> Inl ew | Inr st' \<Rightarrow> dropout_loop E st' ys)"
  by (induction xs arbitrary: st) (auto split: sum.splits)

lemma function_calls_ok:
  "set keys \<subseteq> fst ` set ks \<Longrightarrow>
   function_calls ks keys = Inr (map (\<lambda>key. function_call (the (map_of ks key))) keys)"
proof (induction keys)
  case Nil
  then show ?case by simp
next
  case (Cons key keys)
  from Cons.prems have "key \<in> fst ` set ks" by simp
  then obtain k where "map_of ks key = Some k"
    by (metis map_of_eq_None_iff not_Some_eq)
  with Cons show ?case by simp
qed

lemma function_calls_set:
  "function_calls ks keys = Inr cs \<Longrightarrow>
   set cs = {function_call k |key k. key \<in> set keys \<and> map_of ks key = Some k}"
proof (induction keys arbitrary: cs)
  case Nil
  then show ?case by simp
next
  case (Cons key keys)
  then show ?case
    by (fastforce split: option.splits sum.splits)
qed

lemma step_writes_eq:
  assumes "dropout_step E (fr, w) f = Inr st'"
  shows "st' = (fr, w\<lparr>writes := writes w @ step_writes E fr f\<rparr>)"
proof (cases "f \<in> set (failed_kernels (fr_fit fr))")
  case True
  then show ?thesis
    using assms by (simp add: dropout_step_failed step_writes_def)
next
  case False
  from assms False obtain rpr dmr where
    v: "validate_params E (reduced_io_params (fr_session_id fr) (fr_app_params fr) f) = None" and
    g: "get_params E (reduced_io_params (fr_session_id fr) (fr_app_params fr) f) = Inr rpr" and
    s: "sel (fr_design_matrix fr) (filtered_weights (fr_design_matrix fr) rpr) = Inr dmr" and
    e: "write_error w (inputs_path ''reduced'' (fr_session_id fr) (model_label rpr)) = None" and
    st: "st' = (fr, w\<lparr>writes := writes w @
             [(inputs_path ''reduced'' (fr_session_id fr) (model_label rpr),
               Pickle \<lparr>a_file = inputs_path ''reduced'' (fr_session_id fr) (model_label rpr),
                       a_design_matrix = dm_dump dmr,
                       a_fit = fr_fit fr,
                       a_run_params = fr_run_params fr\<rparr>)]\<rparr>)"
    by (rule dropout_step_Inr)
  have "write_bytes (inputs_path ''reduced'' (fr_session_id fr) (model_label rpr))
          (Pickle \<lparr>a_file = inputs_path ''reduced'' (fr_session_id fr) (model_label rpr),
                  a_design_matrix = dm_dump dmr,
                  a_fit = fr_fit fr,
                  a_run_params = fr_run_params fr\<rparr>)
          \<lparr>dirs = [output_dirs ''reduced''], writes = []\<rparr> =
        Inr \<lparr>dirs = [output_dirs ''reduced''],
             writes = [(inputs_path ''reduced'' (fr_session_id fr) (model_label rpr),
                        Pickle \<lparr>a_file = inputs_path ''reduced'' (fr_session_id fr) (model_label rpr),
                                a_design_matrix = dm_dump dmr,
                                a_fit = fr_fit fr,
                                a_run_params = fr_run_params fr\<rparr>)]\<rparr>"
    using write_error_member [OF e, of "\<lparr>dirs = [output_dirs ''reduced''], writes = []\<rparr>"]
    by (simp add: write_bytes_Inr inputs_path_def)
  then have "step_writes E fr f =
      [(inputs_path ''reduced'' (fr_session_id fr) (model_label rpr),
        Pickle \<lparr>a_file = inputs_path ''reduced'' (fr_session_id fr) (model_label rpr),
                a_design_matrix = dm_dump dmr,
                a_fit = fr_fit fr,
                a_run_params = fr_run_params fr\<rparr>)]"
    using False v g s
    by (simp add: step_writes_def dropout_step_def Let_def copy_dm_def)
  with st show ?thesis by simp
qed

lemma dropout_loop_writes:
  "dropout_loop E (fr, w) fs = Inr st' \<Longrightarrow>
   st' = (fr, w\<lparr>writes := writes w @ concat (map (step_writes E fr) fs)\<rparr>)"
proof (induction fs arbitrary: w)
  case Nil
  then show ?case by simp
next
  case (Cons f fs)
  from Cons.prems obtain st1 where
    s1: "dropout_step E (fr, w) f = Inr st1" and l: "dropout_loop E st1 fs = Inr st'"
    by (auto split: sum.splits)
  from step_writes_eq [OF s1] have st1: "st1 = (fr, w\<lparr>writes := writes w @ step_writes E fr f\<rparr>)" .
  from Cons.IH [OF l [unfolded st1]] show ?case by simp
qed

lemma dropout_step_Inl: "dropout_step E st f = Inl ew \<Longrightarrow> snd ew = snd st"
  by (auto simp: dropout_step_def Let_def dest: write_bytes_Inl split: option.splits sum.splits if_splits)

lemma dropout_loop_Inl_writes:
  "dropout_loop E (fr, w) fs = Inl (e, w1) \<Longrightarrow>
   \<exists>pre g post. fs = pre @ g # post
     \<and> w1 = w\<lparr>writes := writes w @ concat (map (step_writes E fr) pre)\<rparr>
     \<and> dropout_step E (fr, w1) g = Inl (e, w1)"
proof (induction fs arbitrary: w)
  case Nil
  then show ?case by simp
next
  case (Cons f fs)
  show ?case
  proof (cases "dropout_step E (fr, w) f")
    case (Inl ew)
    with Cons.prems have ew: "ew = (e, w1)" by simp
    with Inl have "w1 = w" using dropout_step_Inl by fastforce
    with Inl ew have "f # fs = [] @ f # fs
        \<and> w1 = w\<lparr>writes := writes w @ concat (map (step_writes E fr) [])\<rparr>
        \<and> dropout_step E (fr, w1) f = Inl (e, w1)"
      by simp
    then show ?thesis by blast
  next
    case (Inr st1)
    from step_writes_eq [OF Inr]
    have st1: "st1 = (fr, w\<lparr>writes := writes w @ step_writes E fr f\<rparr>)" .
    from Cons.prems Inr have "dropout_loop E st1 fs = Inl (e, w1)" by simp
    from Cons.IH [OF this [unfolded st1]] obtain pre g post where
      fs: "fs = pre @ g # post" and
      w1: "w1 = w\<lparr>writes := writes w @ step_writes E fr f @ concat (map (step_writes E fr) pre)\<rparr>" and
      g: "dropout_step E (fr, w1) g = Inl (e, w1)"
      by auto
    from fs w1 g have "f # fs = (f # pre) @ g # post
        \<and> w1 = w\<lparr>writes := writes w @ concat (map (step_writes E fr) (f # pre))\<rparr>
        \<and> dropout_step E (fr, w1) g = Inl (e, w1)"
      by simp
    then show ?thesis by blast
  qed
qed

lemma process_session_loop:
  assumes "enters_loop E sid app0 test w0 fr w1 features"
  shows "process_session E sid app0 test w0 =
    (case dropout_loop E (fr, w1) features of Inl ew \<Rightarrow> Inl ew | Inr st \<Rightarrow> Inr (snd st))"
proof -
  from assms obtain session where n: "get_nwb E sid = Inr session"
    by (auto simp: enters_loop_def split: sum.splits)
  note all = assms [unfolded enters_loop_def n sum.case]
  from all have
    sid: "fr_session_id fr = sid" and
    app: "fr_app_params fr = (if test \<noteq> 0 then test_params E session app0 else app0)" and
    v: "validate_params E (full_io_params sid (fr_app_params fr)) = None" and
    g: "get_params E (full_io_params sid (fr_app_params fr)) = Inr (fr_run_params fr)" and
    b: "build_design E (fr_run_params fr) session = Inr (fr_design_matrix fr, fr_fit fr)" and
    wr: "write_bytes (inputs_path ''full'' sid (model_label (fr_run_params fr)))
             (Pickle \<lparr>a_file = inputs_path ''full'' sid (model_label (fr_run_params fr)),
                     a_design_matrix = dm_dump (fr_design_matrix fr),
                     a_fit = fr_fit fr,
                     a_run_params = fr_run_params fr\<rparr>)
             (mkdir (output_dirs ''reduced'') (mkdir (output_dirs ''full'') w0)) = Inr w1" and
    f: "features_to_drop E (fr_app_params fr) (fr_run_params fr) = Inr features"
    by blast+
  from sid app have fr: "fr = \<lparr>fr_session_id = sid,
              fr_app_params = (if test \<noteq> 0 then test_params E session app0 else app0),
              fr_run_params = fr_run_params fr,
              fr_design_matrix = fr_design_matrix fr,
              fr_fit = fr_fit fr\<rparr>"
    by (cases fr) simp
  have "process_session E sid app0 test w0 =
    (case dropout_loop E
            (\<lparr>fr_session_id = sid,
              fr_app_params = (if test \<noteq> 0 then test_params E session app0 else app0),
              fr_run_params = fr_run_params fr,
              fr_design_matrix = fr_design_matrix fr,
              fr_fit = fr_fit fr\<rparr>, w1) features of
       Inl ew \<Rightarrow> Inl ew | Inr st \<Rightarrow> Inr (snd st))"
    using n v g b wr f unfolding app
    by (simp add: process_session_def Let_def)
  with fr show ?thesis by simp
qed

lemma write_error_examples:
  "write_error results_world (''/results/reduced'', ''S1_drop_licks_inputs.pkl'') = None
   \<and> write_error results_world (''/results/reduced'', ''S1_drop_a/b_inputs.pkl'') = Some FileNotFoundError
   \<and> write_error empty_world (''/results/reduced'', ''S1_drop_licks_inputs.pkl'') = Some FileNotFoundError
   \<and> write_error results_world (''/results/reduced'', replicate 256 CHR ''a'') = Some OSError"
  by code_simp

lemma dropout_step_env:
  assumes "validate_params E2 = validate_params E1" and "get_params E2 = get_params E1"
  shows "dropout_step E2 st f = dropout_step E1 st f"
  unfolding dropout_step_def assms by (rule refl)

lemma step_writes_env:
  assumes "validate_params E2 = validate_params E1" and "get_params E2 = get_params E1"
  shows "step_writes E2 fr f = step_writes E1 fr f"
  unfolding step_writes_def dropout_step_env [OF assms] by (rule refl)

lemma features_to_drop_set:
  assumes "\<forall>xs. set (list_set E1 xs) = set xs" and "\<forall>xs. set (list_set E2 xs) = set xs"
    and "features_to_drop E1 app rp = Inr fs" and "features_to_drop E2 app rp = Inr gs"
  shows "set fs = set gs"
proof -
  obtain xs where "fs = list_set E1 xs" and "gs = list_set E2 xs"
    using assms(3,4)
    by (simp add: features_to_drop_def split: option.splits if_splits sum.splits) blast+
  with assms(1,2) show ?thesis by simp
qed

lemma dropout_step_returns:
  assumes "validate_params E (reduced_io_params (fr_session_id fr) (fr_app_params fr) f) = None"
    and "get_params E (reduced_io_params (fr_session_id fr) (fr_app_params fr) f) = Inr rpr"
    and "distinct (weights (fr_design_matrix fr))"
    and "write_error w (inputs_path ''reduced'' (fr_session_id fr) (model_label rpr)) = None"
  shows "\<exists>st'. dropout_step E (fr, w) f = Inr st'"
proof -
  obtain dmr where "sel (fr_design_matrix fr) (filtered_weights (fr_design_matrix fr) rpr) = Inr dmr"
    using sel_ok [OF assms(3) filtered_weights_subset] by blast
  with assms show ?thesis
    by (cases "f \<in> set (failed_kernels (fr_fit fr))")
       (simp_all add: dropout_step_def Let_def copy_dm_def write_bytes_def)
qed

lemma dropout_step_empty_selection:
  assumes "f \<notin> set (failed_kernels (fr_fit fr))"
    and "validate_params E (reduced_io_params (fr_session_id fr) (fr_app_params fr) f) = None"
    and "get_params E (reduced_io_params (fr_session_id fr) (fr_app_params fr) f) = Inr rpr"
    and "filtered_weights (fr_design_matrix fr) rpr = []"
  shows "dropout_step E (fr, w) f =
    (if \<not> distinct (weights (fr_design_matrix fr)) then Inl (InvalidIndexError, w)
     else case write_error w (inputs_path ''reduced'' (fr_session_id fr) (model_label rpr)) of
            Some e \<Rightarrow> Inl (e, w)
          | None \<Rightarrow>
             Inr (fr, w\<lparr>writes := writes w @
               [(inputs_path ''reduced'' (fr_session_id fr) (model_label rpr),
                 Pickle \<lparr>a_file = inputs_path ''reduced'' (fr_session_id fr) (model_label rpr),
                         a_design_matrix =
                           \<lparr>dd_data = [], dd_weights = [],
                            dd_timestamps = timestamps (fr_design_matrix fr)\<rparr>,
                         a_fit = fr_fit fr,
                         a_run_params = fr_run_params fr\<rparr>)]\<rparr>))"
  using assms
  by (simp add: dropout_step_def Let_def copy_dm_def sel_def write_bytes_def
        dm_dump_def data_def weights_def split: option.splits)

lemma map_of_fold_update:
  "map_of (fold (\<lambda>(k, v) d. AList.update k v d) ov d) = map_of d ++ map_of (rev ov)"
proof (induction ov arbitrary: d)
  case Nil
  then show ?case by simp
next
  case (Cons kv ov)
  obtain k v where kv: "kv = (k, v)" by (cases kv)
  have "map_of (fold (\<lambda>(k, v) d. AList.update k v d) ov (AList.update k v d)) =
        (map_of d)(k \<mapsto> v) ++ map_of (rev ov)"
    by (simp only: Cons.IH update_conv')
  also have "\<dots> = map_of d ++ ([k \<mapsto> v] ++ map_of (rev ov))"
    by (rule ext) (simp add: map_add_def split: option.splits)
  also have "\<dots> = map_of d ++ map_of (rev (kv # ov))"
    by (simp add: kv)
  finally show ?case by (simp add: kv)
qed

lemma map_of_apply_overrides:
  "map_of (apply_overrides ov d) = map_of d ++ map_of (rev ov)"
  by (simp add: apply_overrides_def map_of_fold_update)

lemma map_of_rev_distinct:
  "distinct (map fst xs) \<Longrightarrow> map_of (rev xs) = map_of xs"
proof (induction xs)
  case Nil
  then show ?case by simp
next
  case (Cons kv xs)
  obtain k v where kv: "kv = (k, v)" by (cases kv)
  from Cons.prems kv have "map_of xs k = None"
    by (simp add: map_of_eq_None_iff)
  then have "[k \<mapsto> v] ++ map_of xs = (map_of xs)(k \<mapsto> v)"
    by (intro ext) (simp add: map_add_def split: option.splits)
  with Cons kv show ?case by simp
qed

lemma distinct_fold_update:
  "distinct (map fst d) \<Longrightarrow> distinct (map fst (fold (\<lambda>(k, v) d. AList.update k v d) ov d))"
  by (induction ov arbitrary: d) (auto simp: distinct_update)

lemma distinct_apply_overrides:
  "distinct (map fst d) \<Longrightarrow> distinct (map fst (apply_overrides ov d))"
  by (simp add: apply_overrides_def distinct_fold_update)

lemma map_of_fold_cli:
  "map_of (fold (\<lambda>name app_params.
                   case getattr name of
                     None \<Rightarrow> app_params
                   | Some val \<Rightarrow> AList.update name val app_params) names acc) k =
   (if k \<in> set names then (case getattr k of None \<Rightarrow> map_of acc k | Some v \<Rightarrow> Some v)
    else map_of acc k)"
  by (induction names arbitrary: acc) (auto simp: update_conv' split: option.splits)

lemma map_of_cli_app_params:
  "map_of (cli_app_params names getattr) k = (if k \<in> set names then getattr k else None)"
  by (simp add: cli_app_params_def map_of_fold_cli split: option.splits)

lemma ensure_nonempty_both:
  "dir_nonempty (ensure_nonempty_results_dirs [d1, d2] w) d1 \<and>
   dir_nonempty (ensure_nonempty_results_dirs [d1, d2] w) d2"
  by (auto simp: ensure_nonempty_results_dirs_def dir_nonempty_def files_in_def mkdir_def Let_def)

lemma main_completed_nonempty:
  assumes "fst (main E a w) = Completed"
  shows "dir_nonempty (snd (main E a w)) ''/results/full'' \<and>
         dir_nonempty (snd (main E a w)) ''/results/reduced''"
  using assms ensure_nonempty_both [of "''/results/full''" "''/results/reduced''"]
  by (auto simp: main_def Let_def split: option.splits if_splits)

lemma main_exits_early:
  "arg_session_id a = Some sid \<Longrightarrow> sid \<notin> set (session_ids E) \<Longrightarrow> main E a w = (Exited, w)"
  by (simp add: main_def Let_def)

section \<open>C1: an empty retained set\<close>

text \<open>
  C1, as claimed: for a feature that is not a failed kernel, if no weight of the design
  matrix has a group token among the keys of the kernels after the drop, the dropout stage
  raises an error instead of writing a reduced artifact with zero columns.
  The code has no such check. In a model whose only input variable is licks, dropping
  licks leaves no kernel; the session returns normally and the file for drop_licks is
  written with no weight at all.
\<close>

theorem empty_retained_set_counterexample:
  "''licks'' \<notin> set (failed_kernels (fr_fit licks_frame))
   \<and> get_params (toy_env [] False) (reduced_io_params ''S1'' licks_app ''licks'') =
       Inr \<lparr>input_variables = [], kernels = [], model_label = ''drop_licks'', other_params = []\<rparr>
   \<and> filtered_weights (fr_design_matrix licks_frame)
         \<lparr>input_variables = [], kernels = [], model_label = ''drop_licks'', other_params = []\<rparr> = []
   \<and> session_listing (process_session (toy_env [] False) ''S1'' licks_app 0 empty_world) =
       Some [(''/results/full'', ''S1_fullmodel_inputs.pkl'', [''licks_0'', ''licks_1''], ''fullmodel''),
             (''/results/reduced'', ''S1_drop_licks_inputs.pkl'', [], ''fullmodel'')]"
  by code_simp

text \<open>
  C1, amended: for a feature that is not a failed kernel and whose reduced parameters
  resolve (the validation passes and \<^verbatim>\<open>get_params\<close> returns), if no weight of the design
  matrix has a group token among the keys of the kernels after the drop, the dropout
  stage raises no error for it and goes on as for any other set: when the weight labels of
  the design matrix are unique (\<^verbatim>\<open>sel\<close> raises \<^verbatim>\<open>InvalidIndexError\<close> otherwise) and the output
  file can be written (\<^verbatim>\<open>write_bytes\<close> raises otherwise: a directory that is not there, a
  name that is no plain file name), it writes the reduced artifact of the feature, with no
  data column and no weight.
\<close>

theorem empty_retained_set_is_written:
  assumes "f \<notin> set (failed_kernels (fr_fit fr))"
    and "validate_params E (reduced_io_params (fr_session_id fr) (fr_app_params fr) f) = None"
    and "get_params E (reduced_io_params (fr_session_id fr) (fr_app_params fr) f) = Inr rpr"
    and "filter (\<lambda>weight. group_token weight \<in> set (map fst (kernels rpr)))
           (weights (fr_design_matrix fr)) = []"
  shows "dropout_step E (fr, w) f =
    (if \<not> distinct (weights (fr_design_matrix fr)) then Inl (InvalidIndexError, w)
     else case write_error w (inputs_path ''reduced'' (fr_session_id fr) (model_label rpr)) of
            Some e \<Rightarrow> Inl (e, w)
          | None \<Rightarrow>
             Inr (fr, w\<lparr>writes := writes w @
               [(inputs_path ''reduced'' (fr_session_id fr) (model_label rpr),
                 Pickle \<lparr>a_file = inputs_path ''reduced'' (fr_session_id fr) (model_label rpr),
                         a_design_matrix =
                           \<lparr>dd_data = [], dd_weights = [],
                            dd_timestamps = timestamps (fr_design_matrix fr)\<rparr>,
                         a_fit = fr_fit fr,
                         a_run_params = fr_run_params fr\<rparr>)]\<rparr>))"
proof -
  from assms(4) have "filtered_weights (fr_design_matrix fr) rpr = []"
    by (simp add: filtered_weights_def)
  with assms(1-3) show ?thesis
    by (rule dropout_step_empty_selection)
qed

theorem empty_retained_set_is_written_witness:
  "''licks'' \<notin> set (failed_kernels (fr_fit licks_frame))
   \<and> distinct (weights (fr_design_matrix licks_frame))
   \<and> write_error results_world (''/results/reduced'', ''S1_drop_licks_inputs.pkl'') = None
   \<and> dropout_step (toy_env [] False) (licks_frame, results_world) ''licks'' =
       Inr (licks_frame, results_world\<lparr>writes :=
         [((''/results/reduced'', ''S1_drop_licks_inputs.pkl''),
           Pickle \<lparr>a_file = (''/results/reduced'', ''S1_drop_licks_inputs.pkl''),
                   a_design_matrix = \<lparr>dd_data = [], dd_weights = [], dd_timestamps = 0\<rparr>,
                   a_fit = \<lparr>failed_kernels = [], fit_entries = []\<rparr>,
                   a_run_params = fr_run_params licks_frame\<rparr>)]\<rparr>)
   \<and> dropout_step (toy_env [] False)
        (licks_frame\<lparr>fr_design_matrix := \<lparr>columns = [(''licks_0'', 0), (''licks_0'', 1)], timestamps = 0\<rparr>\<rparr>,
         results_world) ''licks'' = Inl (InvalidIndexError, results_world)"
proof -
  have 1: "''licks'' \<notin> set (failed_kernels (fr_fit licks_frame))"
    by code_simp
  have 2: "validate_params (toy_env [] False)
             (reduced_io_params (fr_session_id licks_frame) (fr_app_params licks_frame) ''licks'') = None"
    by code_simp
  have 3: "get_params (toy_env [] False)
             (reduced_io_params (fr_session_id licks_frame) (fr_app_params licks_frame) ''licks'') =
           Inr \<lparr>input_variables = [], kernels = [], model_label = ''drop_licks'', other_params = []\<rparr>"
    by code_simp
  have 4: "distinct (weights (fr_design_matrix licks_frame))"
    by code_simp
  have 5: "write_error results_world (''/results/reduced'', ''S1_drop_licks_inputs.pkl'') = None"
    by code_simp
  have 6: "filter (\<lambda>weight. group_token weight \<in> set (map fst (kernels
               \<lparr>input_variables = [], kernels = [], model_label = ''drop_licks'', other_params = []\<rparr>)))
             (weights (fr_design_matrix licks_frame)) = []"
    by simp
  have 7: "inputs_path ''reduced'' (fr_session_id licks_frame) ''drop_licks'' =
           (''/results/reduced'', ''S1_drop_licks_inputs.pkl'')"
    by code_simp
  have 8: "timestamps (fr_design_matrix licks_frame) = 0" and 9: "fr_fit licks_frame = \<lparr>failed_kernels = [], fit_entries = []\<rparr>"
    and 10: "writes results_world = []"
    by (simp_all add: licks_frame_def results_world_def)
  have 11: "dropout_step (toy_env [] False)
        (licks_frame\<lparr>fr_design_matrix := \<lparr>columns = [(''licks_0'', 0), (''licks_0'', 1)], timestamps = 0\<rparr>\<rparr>,
         results_world) ''licks'' = Inl (InvalidIndexError, results_world)"
    by code_simp
  from empty_retained_set_is_written [OF 1 2 3 6, of results_world] 1 4 5 7 8 9 10 11
  show ?thesis by simp
qed

section \<open>C2: the parameters stored in a reduced artifact\<close>

text \<open>
  C2: for a feature that is not a failed kernel, the reduced artifact holds the feature's
  own resolved parameters (drop_variables = [f], model_label = drop_f), not those of the
  full model. The code resolves these parameters (lines 170-174) and takes the file name
  from them (line 187), but line 198 stores \<^verbatim>\<open>run_params\<close>, the parameters of the full
  model. For the session S1 with the feature licks to drop: the parameters resolved for
  the drop have the label drop_licks and one kernel, the file S1_drop_licks_inputs.pkl
  holds the parameters labelled fullmodel with both kernels.
\<close>

theorem reduced_artifact_stores_full_params:
  "get_params (toy_env [] False)
      (reduced_io_params ''S1'' (toy_app ''S1'' [(''features_to_drop'', VStrs [''licks''])]) ''licks'') =
     Inr \<lparr>input_variables = [''running''],
          kernels = [(''running'', \<lparr>function_call = ''continuous'', kernel_args = []\<rparr>)],
          model_label = ''drop_licks'', other_params = []\<rparr>
   \<and> process_session (toy_env [] False) ''S1''
        (toy_app ''S1'' [(''features_to_drop'', VStrs [''licks''])]) 0 empty_world =
     Inr \<lparr>dirs = [''/results/reduced'', ''/results/full''],
          writes =
            [((''/results/full'', ''S1_fullmodel_inputs.pkl''),
              Pickle \<lparr>a_file = (''/results/full'', ''S1_fullmodel_inputs.pkl''),
                      a_design_matrix =
                        \<lparr>dd_data = [0, 1, 2],
                         dd_weights = [''licks_0'', ''licks_1'', ''running_0''],
                         dd_timestamps = 0\<rparr>,
                      a_fit = \<lparr>failed_kernels = [], fit_entries = []\<rparr>,
                      a_run_params = toy_rp\<rparr>),
             ((''/results/reduced'', ''S1_drop_licks_inputs.pkl''),
              Pickle \<lparr>a_file = (''/results/reduced'', ''S1_drop_licks_inputs.pkl''),
                      a_design_matrix =
                        \<lparr>dd_data = [2], dd_weights = [''running_0''], dd_timestamps = 0\<rparr>,
                      a_fit = \<lparr>failed_kernels = [], fit_entries = []\<rparr>,
                      a_run_params = toy_rp\<rparr>)]\<rparr>
   \<and> model_label toy_rp = ''fullmodel''
   \<and> map fst (kernels toy_rp) = [''licks'', ''running'']"
  by code_simp

section \<open>C3: an exception while a feature is processed\<close>

text \<open>
  C3, as claimed: if processing one dropout feature raises an exception, the remaining
  dropout features of the session are still processed and their artifacts written.
  The loop of line 159 has no handler of its own. With a library that refuses the unknown
  drop variable pupil, the session with the features pupil and licks raises at pupil and
  writes nothing for licks; with licks alone, the artifact of licks is written.
\<close>

theorem feature_failure_counterexample:
  "features_to_drop (toy_env [] True)
      (toy_app ''S1'' [(''features_to_drop'', VStrs [''pupil'', ''licks''])]) toy_rp =
     Inr [''pupil'', ''licks'']
   \<and> failure_listing (process_session (toy_env [] True) ''S1''
         (toy_app ''S1'' [(''features_to_drop'', VStrs [''pupil'', ''licks''])]) 0 empty_world) =
       Some (LibraryError ''unknown drop variable'',
             [(''/results/full'', ''S1_fullmodel_inputs.pkl'',
               [''licks_0'', ''licks_1'', ''running_0''], ''fullmodel'')])
   \<and> session_listing (process_session (toy_env [] True) ''S1''
         (toy_app ''S1'' [(''features_to_drop'', VStrs [''licks''])]) 0 empty_world) =
       Some [(''/results/full'', ''S1_fullmodel_inputs.pkl'',
               [''licks_0'', ''licks_1'', ''running_0''], ''fullmodel''),
             (''/results/reduced'', ''S1_drop_licks_inputs.pkl'', [''running_0''], ''fullmodel'')]"
  by code_simp

text \<open>
  C3, amended: in a session that reaches the loop over its dropout features, if the
  features before f are processed and the iteration of f raises an exception, the
  exception leaves the loop and \<^verbatim>\<open>process_session\<close>: the session ends with that exception
  and the files written so far (the artifact of the full model and those of the features
  before f), and the features after f are not processed, whatever they are. The failure is
  isolated at session granularity only: main catches the exception and, outside test mode,
  goes on with the next session from the files the failed session left.
\<close>

theorem feature_failure_ends_the_session:
  assumes "enters_loop E sid app0 test w0 fr w1 (pre @ f # post)"
    and "dropout_loop E (fr, w1) pre = Inr st1"
    and "dropout_step E st1 f = Inl ew"
  shows "process_session E sid app0 test w0 = Inl ew
       \<and> snd ew = snd st1
       \<and> snd st1 = w1\<lparr>writes := writes w1 @ concat (map (step_writes E fr) pre)\<rparr>
       \<and> (\<forall>app_params sids.
            AppParams_init sid app_params = Inr app0 \<longrightarrow>
            session_loop E app_params test (sid # sids) w0 =
              (if test \<noteq> 0 then snd st1 else session_loop E app_params test sids (snd st1)))"
proof -
  have loop: "dropout_loop E (fr, w1) (pre @ f # post) = Inl ew"
    using assms(2,3) by (simp add: dropout_loop_append)
  have 1: "process_session E sid app0 test w0 = Inl ew"
    using process_session_loop [OF assms(1)] loop by simp
  have 2: "snd ew = snd st1"
    using assms(3) by (rule dropout_step_Inl)
  have 3: "snd st1 = w1\<lparr>writes := writes w1 @ concat (map (step_writes E fr) pre)\<rparr>"
    using dropout_loop_writes [OF assms(2)] by simp
  have 4: "\<forall>app_params sids.
            AppParams_init sid app_params = Inr app0 \<longrightarrow>
            session_loop E app_params test (sid # sids) w0 =
              (if test \<noteq> 0 then snd st1 else session_loop E app_params test sids (snd st1))"
    using 1 2 by (simp add: Let_def)
  from 1 2 3 4 show ?thesis by blast
qed

theorem feature_failure_ends_the_session_witness:
  "enters_loop (toy_env [] True) ''S1''
      (toy_app ''S1'' [(''features_to_drop'', VStrs [''running'', ''pupil'', ''licks''])]) 0 empty_world
      (toy_frame [] [(''features_to_drop'', VStrs [''running'', ''pupil'', ''licks''])])
      full_world ([''running''] @ ''pupil'' # [''licks''])
   \<and> process_session (toy_env [] True) ''S1''
        (toy_app ''S1'' [(''features_to_drop'', VStrs [''running'', ''pupil'', ''licks''])]) 0 empty_world =
       Inl (LibraryError ''unknown drop variable'',
            full_world\<lparr>writes := writes full_world @
              step_writes (toy_env [] True)
                (toy_frame [] [(''features_to_drop'', VStrs [''running'', ''pupil'', ''licks''])]) ''running''\<rparr>)
   \<and> failure_listing (process_session (toy_env [] True) ''S1''
        (toy_app ''S1'' [(''features_to_drop'', VStrs [''running'', ''pupil'', ''licks''])]) 0 empty_world) =
       Some (LibraryError ''unknown drop variable'',
             [(''/results/full'', ''S1_fullmodel_inputs.pkl'',
               [''licks_0'', ''licks_1'', ''running_0''], ''fullmodel''),
              (''/results/reduced'', ''S1_drop_running_inputs.pkl'',
               [''licks_0'', ''licks_1''], ''fullmodel'')])
   \<and> session_loop (toy_env [] True)
        [(''features_to_drop'', VStrs [''running'', ''pupil'', ''licks''])] 0 [''S1'', ''S2''] empty_world =
     session_loop (toy_env [] True)
        [(''features_to_drop'', VStrs [''running'', ''pupil'', ''licks''])] 0 [''S2'']
        (full_world\<lparr>writes := writes full_world @
              step_writes (toy_env [] True)
                (toy_frame [] [(''features_to_drop'', VStrs [''running'', ''pupil'', ''licks''])]) ''running''\<rparr>)
   \<and> listing (session_loop (toy_env [] True)
        [(''features_to_drop'', VStrs [''running'', ''pupil'', ''licks''])] 0 [''S1'', ''S2''] empty_world) =
       [(''/results/full'', ''S1_fullmodel_inputs.pkl'',
         [''licks_0'', ''licks_1'', ''running_0''], ''fullmodel''),
        (''/results/reduced'', ''S1_drop_running_inputs.pkl'', [''licks_0'', ''licks_1''], ''fullmodel''),
        (''/results/full'', ''S2_fullmodel_inputs.pkl'',
         [''licks_0'', ''licks_1'', ''running_0''], ''fullmodel''),
        (''/results/reduced'', ''S2_drop_running_inputs.pkl'', [''licks_0'', ''licks_1''], ''fullmodel'')]"
proof -
  have 1: "enters_loop (toy_env [] True) ''S1''
      (toy_app ''S1'' [(''features_to_drop'', VStrs [''running'', ''pupil'', ''licks''])]) 0 empty_world
      (toy_frame [] [(''features_to_drop'', VStrs [''running'', ''pupil'', ''licks''])])
      full_world ([''running''] @ ''pupil'' # [''licks''])"
    by code_simp
  have 2: "dropout_loop (toy_env [] True)
        (toy_frame [] [(''features_to_drop'', VStrs [''running'', ''pupil'', ''licks''])], full_world)
        [''running''] =
      Inr (toy_frame [] [(''features_to_drop'', VStrs [''running'', ''pupil'', ''licks''])],
           full_world\<lparr>writes := writes full_world @
              step_writes (toy_env [] True)
                (toy_frame [] [(''features_to_drop'', VStrs [''running'', ''pupil'', ''licks''])]) ''running''\<rparr>)"
    by code_simp
  have 3: "dropout_step (toy_env [] True)
        (toy_frame [] [(''features_to_drop'', VStrs [''running'', ''pupil'', ''licks''])],
         full_world\<lparr>writes := writes full_world @
              step_writes (toy_env [] True)
                (toy_frame [] [(''features_to_drop'', VStrs [''running'', ''pupil'', ''licks''])]) ''running''\<rparr>)
        ''pupil'' =
      Inl (LibraryError ''unknown drop variable'',
           full_world\<lparr>writes := writes full_world @
              step_writes (toy_env [] True)
                (toy_frame [] [(''features_to_drop'', VStrs [''running'', ''pupil'', ''licks''])]) ''running''\<rparr>)"
    by code_simp
  have 4: "failure_listing (process_session (toy_env [] True) ''S1''
        (toy_app ''S1'' [(''features_to_drop'', VStrs [''running'', ''pupil'', ''licks''])]) 0 empty_world) =
       Some (LibraryError ''unknown drop variable'',
             [(''/results/full'', ''S1_fullmodel_inputs.pkl'',
               [''licks_0'', ''licks_1'', ''running_0''], ''fullmodel''),
              (''/results/reduced'', ''S1_drop_running_inputs.pkl'',
               [''licks_0'', ''licks_1''], ''fullmodel'')])"
    by code_simp
  have 5: "AppParams_init ''S1'' [(''features_to_drop'', VStrs [''running'', ''pupil'', ''licks''])] =
      Inr (toy_app ''S1'' [(''features_to_drop'', VStrs [''running'', ''pupil'', ''licks''])])"
    by code_simp
  note inst = feature_failure_ends_the_session [OF 1 2 3]
  from inst have a: "process_session (toy_env [] True) ''S1''
        (toy_app ''S1'' [(''features_to_drop'', VStrs [''running'', ''pupil'', ''licks''])]) 0 empty_world =
       Inl (LibraryError ''unknown drop variable'',
            full_world\<lparr>writes := writes full_world @
              step_writes (toy_env [] True)
                (toy_frame [] [(''features_to_drop'', VStrs [''running'', ''pupil'', ''licks''])]) ''running''\<rparr>)"
    by blast
  from inst have q: "\<forall>app_params sids.
      AppParams_init ''S1'' app_params =
        Inr (toy_app ''S1'' [(''features_to_drop'', VStrs [''running'', ''pupil'', ''licks''])]) \<longrightarrow>
      session_loop (toy_env [] True) app_params 0 (''S1'' # sids) empty_world =
        (if (0 :: int) \<noteq> 0
         then snd (toy_frame [] [(''features_to_drop'', VStrs [''running'', ''pupil'', ''licks''])],
           full_world\<lparr>writes := writes full_world @
              step_writes (toy_env [] True)
                (toy_frame [] [(''features_to_drop'', VStrs [''running'', ''pupil'', ''licks''])]) ''running''\<rparr>)
         else session_loop (toy_env [] True) app_params 0 sids
           (snd (toy_frame [] [(''features_to_drop'', VStrs [''running'', ''pupil'', ''licks''])],
           full_world\<lparr>writes := writes full_world @
              step_writes (toy_env [] True)
                (toy_frame [] [(''features_to_drop'', VStrs [''running'', ''pupil'', ''licks''])]) ''running''\<rparr>)))"
    by blast
  from q [rule_format, OF 5, of "[''S2'']"] have b: "session_loop (toy_env [] True)
        [(''features_to_drop'', VStrs [''running'', ''pupil'', ''licks''])] 0 [''S1'', ''S2''] empty_world =
     session_loop (toy_env [] True)
        [(''features_to_drop'', VStrs [''running'', ''pupil'', ''licks''])] 0 [''S2'']
        (full_world\<lparr>writes := writes full_world @
              step_writes (toy_env [] True)
                (toy_frame [] [(''features_to_drop'', VStrs [''running'', ''pupil'', ''licks''])]) ''running''\<rparr>)"
    by (simp only: simp_thms if_False snd_conv)
  have 6: "listing (session_loop (toy_env [] True)
        [(''features_to_drop'', VStrs [''running'', ''pupil'', ''licks''])] 0 [''S1'', ''S2''] empty_world) =
       [(''/results/full'', ''S1_fullmodel_inputs.pkl'',
         [''licks_0'', ''licks_1'', ''running_0''], ''fullmodel''),
        (''/results/reduced'', ''S1_drop_running_inputs.pkl'', [''licks_0'', ''licks_1''], ''fullmodel''),
        (''/results/full'', ''S2_fullmodel_inputs.pkl'',
         [''licks_0'', ''licks_1'', ''running_0''], ''fullmodel''),
        (''/results/reduced'', ''S2_drop_running_inputs.pkl'', [''licks_0'', ''licks_1''], ''fullmodel'')]"
    by code_simp
  from 1 a 4 b 6 show ?thesis by blast
qed

section \<open>C4: the output directories after a run\<close>

text \<open>
  C4: after every full run both output directories exist and are non-empty, also when the
  requested session id is not in the filtered session table. On that path main calls
  \<^verbatim>\<open>exit()\<close> (line 287) before it reaches \<^verbatim>\<open>ensure_nonempty_results_dirs\<close> (line 309):
  with the session id S9 requested and the sessions S1 and S2 in the table, the run ends
  with the output tree as it found it, here without either directory.
\<close>

theorem missing_session_exits_before_placeholder:
  "main (toy_env [] False)
      \<lparr>arg_session_id = Some ''S9'', arg_test = 0, arg_fields = [], override_params = []\<rparr>
      empty_world = (Exited, empty_world)
   \<and> \<not> dir_nonempty empty_world ''/results/full''
   \<and> \<not> dir_nonempty empty_world ''/results/reduced''"
  by code_simp

section \<open>C5: the weights of a reduced design matrix\<close>

text \<open>
  C5, as claimed: the weight set of the reduced design matrix is a strict subset of the
  weight set of the full design matrix. Nothing in the code makes the subset strict: when
  the feature to drop names no kernel of the model (here pupil, with the input variables
  licks and running), the kernels after the drop are those of the full model and the
  reduced design matrix has every weight of the full one.
\<close>

theorem reduced_weights_counterexample:
  "''pupil'' \<notin> set (failed_kernels (fr_fit (toy_frame [] [(''features_to_drop'', VStrs [''pupil''])])))
   \<and> weights (fr_design_matrix (toy_frame [] [(''features_to_drop'', VStrs [''pupil''])])) =
       [''licks_0'', ''licks_1'', ''running_0'']
   \<and> step_writes (toy_env [] False) (toy_frame [] [(''features_to_drop'', VStrs [''pupil''])]) ''pupil'' =
       [((''/results/reduced'', ''S1_drop_pupil_inputs.pkl''),
         Pickle \<lparr>a_file = (''/results/reduced'', ''S1_drop_pupil_inputs.pkl''),
                 a_design_matrix =
                   \<lparr>dd_data = [0, 1, 2],
                    dd_weights = [''licks_0'', ''licks_1'', ''running_0''],
                    dd_timestamps = 0\<rparr>,
                 a_fit = \<lparr>failed_kernels = [], fit_entries = []\<rparr>,
                 a_run_params = toy_rp\<rparr>)]
   \<and> session_listing (process_session (toy_env [] False) ''S1''
         (toy_app ''S1'' [(''features_to_drop'', VStrs [''pupil''])]) 0 empty_world) =
       Some [(''/results/full'', ''S1_fullmodel_inputs.pkl'',
               [''licks_0'', ''licks_1'', ''running_0''], ''fullmodel''),
             (''/results/reduced'', ''S1_drop_pupil_inputs.pkl'',
               [''licks_0'', ''licks_1'', ''running_0''], ''fullmodel'')]
   \<and> \<not> set [''licks_0'', ''licks_1'', ''running_0'']
         \<subset> set (weights (fr_design_matrix (toy_frame [] [(''features_to_drop'', VStrs [''pupil''])])))"
  by code_simp

text \<open>
  C5, amended: for a feature that is not a failed kernel and whose iteration returns, the
  weights of the reduced design matrix are the weights of the full design matrix whose
  group token (the prefix before the first underscore) is a key of the kernels after the
  drop, in the order of the full design matrix; they are a subset of the weights of the
  full design matrix (not always a strict one), and the group token of every retained
  weight is a key of the kernels after the drop.
\<close>

theorem reduced_weights_filtered:
  assumes "dropout_step E (fr, w) f = Inr st'" and "f \<notin> set (failed_kernels (fr_fit fr))"
  shows "\<exists>rpr a. get_params E (reduced_io_params (fr_session_id fr) (fr_app_params fr) f) = Inr rpr
      \<and> writes (snd st') =
          writes w @ [(inputs_path ''reduced'' (fr_session_id fr) (model_label rpr), Pickle a)]
      \<and> dd_weights (a_design_matrix a) = filtered_weights (fr_design_matrix fr) rpr
      \<and> set (dd_weights (a_design_matrix a)) =
          {x \<in> set (weights (fr_design_matrix fr)). group_token x \<in> fst ` set (kernels rpr)}
      \<and> set (dd_weights (a_design_matrix a)) \<subseteq> set (weights (fr_design_matrix fr))
      \<and> (\<forall>x \<in> set (dd_weights (a_design_matrix a)). group_token x \<in> fst ` set (kernels rpr))"
proof -
  from assms obtain rpr dmr where
    g: "get_params E (reduced_io_params (fr_session_id fr) (fr_app_params fr) f) = Inr rpr" and
    s: "sel (fr_design_matrix fr) (filtered_weights (fr_design_matrix fr) rpr) = Inr dmr" and
    st: "st' = (fr, w\<lparr>writes := writes w @
             [(inputs_path ''reduced'' (fr_session_id fr) (model_label rpr),
               Pickle \<lparr>a_file = inputs_path ''reduced'' (fr_session_id fr) (model_label rpr),
                       a_design_matrix = dm_dump dmr,
                       a_fit = fr_fit fr,
                       a_run_params = fr_run_params fr\<rparr>)]\<rparr>)"
    by (rule dropout_step_Inr)
  have w: "dd_weights (dm_dump dmr) = filtered_weights (fr_design_matrix fr) rpr"
    using sel_Inr(1) [OF s] by (simp add: dm_dump_def)
  have "set (filtered_weights (fr_design_matrix fr) rpr) =
      {x \<in> set (weights (fr_design_matrix fr)). group_token x \<in> fst ` set (kernels rpr)}"
    by (auto simp: filtered_weights_def)
  with g st w show ?thesis by auto
qed

theorem reduced_weights_filtered_witness:
  "''licks'' \<notin> set (failed_kernels (fr_fit (toy_frame [] [])))
   \<and> dropout_step (toy_env [] False) (toy_frame [] [], results_world) ''licks'' =
       Inr (toy_frame [] [],
            results_world\<lparr>writes := step_writes (toy_env [] False) (toy_frame [] []) ''licks''\<rparr>)
   \<and> (\<exists>rpr a.
         get_params (toy_env [] False) (reduced_io_params ''S1'' (toy_app ''S1'' []) ''licks'') = Inr rpr
       \<and> step_writes (toy_env [] False) (toy_frame [] []) ''licks'' =
           [(inputs_path ''reduced'' ''S1'' (model_label rpr), Pickle a)]
       \<and> dd_weights (a_design_matrix a) = filtered_weights toy_dm rpr
       \<and> set (dd_weights (a_design_matrix a)) =
           {x \<in> set (weights toy_dm). group_token x \<in> fst ` set (kernels rpr)}
       \<and> set (dd_weights (a_design_matrix a)) \<subseteq> set (weights toy_dm))
   \<and> step_writes (toy_env [] False) (toy_frame [] []) ''licks'' =
       [((''/results/reduced'', ''S1_drop_licks_inputs.pkl''),
         Pickle \<lparr>a_file = (''/results/reduced'', ''S1_drop_licks_inputs.pkl''),
                 a_design_matrix =
                   \<lparr>dd_data = [2], dd_weights = [''running_0''], dd_timestamps = 0\<rparr>,
                 a_fit = \<lparr>failed_kernels = [], fit_entries = []\<rparr>,
                 a_run_params = toy_rp\<rparr>)]"
proof -
  have 1: "dropout_step (toy_env [] False) (toy_frame [] [], results_world) ''licks'' =
       Inr (toy_frame [] [],
            results_world\<lparr>writes := step_writes (toy_env [] False) (toy_frame [] []) ''licks''\<rparr>)"
    by code_simp
  have 2: "''licks'' \<notin> set (failed_kernels (fr_fit (toy_frame [] [])))"
    by code_simp
  have 3: "step_writes (toy_env [] False) (toy_frame [] []) ''licks'' =
       [((''/results/reduced'', ''S1_drop_licks_inputs.pkl''),
         Pickle \<lparr>a_file = (''/results/reduced'', ''S1_drop_licks_inputs.pkl''),
                 a_design_matrix =
                   \<lparr>dd_data = [2], dd_weights = [''running_0''], dd_timestamps = 0\<rparr>,
                 a_fit = \<lparr>failed_kernels = [], fit_entries = []\<rparr>,
                 a_run_params = toy_rp\<rparr>)]"
    by code_simp
  have 4: "fr_session_id (toy_frame [] []) = ''S1''" "fr_app_params (toy_frame [] []) = toy_app ''S1'' []"
    "fr_design_matrix (toy_frame [] []) = toy_dm" "writes results_world = []"
    by (simp_all add: toy_frame_def results_world_def)
  from reduced_weights_filtered [OF 1 2] 1 2 3 show ?thesis
    unfolding 4 by (simp add: 4) blast
qed

section \<open>C6: features whose kernel failed\<close>

text \<open>
  C6: a candidate feature that is in the failed kernels of the fit record is skipped
  entirely: its iteration returns the state as it was, whatever the library is (no
  parameters are resolved and nothing is written for it), and the loop over the candidates
  is the loop over the candidates without it, so all the others are processed as they
  would be.
\<close>

theorem failed_kernel_skipped:
  assumes "f \<in> set (failed_kernels (fr_fit fr))"
  shows "dropout_step E' (fr, w) f = Inr (fr, w)
       \<and> dropout_loop E (fr, w) (pre @ f # post) = dropout_loop E (fr, w) (pre @ post)"
proof
  show "dropout_step E' (fr, w) f = Inr (fr, w)"
    using assms by (rule dropout_step_failed)
next
  show "dropout_loop E (fr, w) (pre @ f # post) = dropout_loop E (fr, w) (pre @ post)"
  proof (cases "dropout_loop E (fr, w) pre")
    case (Inl ew)
    then show ?thesis by (simp add: dropout_loop_append)
  next
    case (Inr st1)
    then have "fst st1 = fr" using dropout_loop_frame by fastforce
    then obtain w1 where "st1 = (fr, w1)" by (cases st1) simp
    with Inr assms show ?thesis
      by (simp add: dropout_loop_append dropout_step_failed)
  qed
qed

theorem failed_kernel_skipped_witness:
  "''running'' \<in> set (failed_kernels (fr_fit (toy_frame [''running''] [])))
   \<and> dropout_step (toy_env [''running''] True) (toy_frame [''running''] [], results_world) ''running'' =
       Inr (toy_frame [''running''] [], results_world)
   \<and> dropout_loop (toy_env [''running''] False) (toy_frame [''running''] [], results_world)
        ([''licks''] @ ''running'' # [''discrete'']) =
     dropout_loop (toy_env [''running''] False) (toy_frame [''running''] [], results_world)
        ([''licks''] @ [''discrete''])
   \<and> session_listing (process_session (toy_env [''running''] False) ''S1'' (toy_app ''S1'' []) 0 empty_world) =
       Some [(''/results/full'', ''S1_fullmodel_inputs.pkl'',
               [''licks_0'', ''licks_1'', ''running_0''], ''fullmodel''),
             (''/results/reduced'', ''S1_drop_licks_inputs.pkl'', [''running_0''], ''fullmodel''),
             (''/results/reduced'', ''S1_drop_discrete_inputs.pkl'', [''running_0''], ''fullmodel''),
             (''/results/reduced'', ''S1_drop_continuous_inputs.pkl'',
               [''licks_0'', ''licks_1''], ''fullmodel'')]"
proof -
  have 1: "''running'' \<in> set (failed_kernels (fr_fit (toy_frame [''running''] [])))"
    by code_simp
  have 2: "session_listing (process_session (toy_env [''running''] False) ''S1'' (toy_app ''S1'' []) 0 empty_world) =
       Some [(''/results/full'', ''S1_fullmodel_inputs.pkl'',
               [''licks_0'', ''licks_1'', ''running_0''], ''fullmodel''),
             (''/results/reduced'', ''S1_drop_licks_inputs.pkl'', [''running_0''], ''fullmodel''),
             (''/results/reduced'', ''S1_drop_discrete_inputs.pkl'', [''running_0''], ''fullmodel''),
             (''/results/reduced'', ''S1_drop_continuous_inputs.pkl'',
               [''licks_0'', ''licks_1''], ''fullmodel'')]"
    by code_simp
  from failed_kernel_skipped [OF 1, of "toy_env [''running''] True" results_world
      "toy_env [''running''] False" "[''licks'']" "[''discrete'']"] 1 2
  show ?thesis by blast
qed

section \<open>C7: the derived list of features to drop\<close>

text \<open>
  C7: when \<^verbatim>\<open>features_to_drop\<close> is unset (\<^verbatim>\<open>None\<close>) and every input variable of the
  full model has a kernel, the list of candidate features is the deduplicated union of the
  input variables of the full model and the \<^verbatim>\<open>function_call\<close> of the kernel of each
  input variable.
\<close>

theorem derived_features_to_drop:
  assumes "map_of app ''features_to_drop'' = Some VNone"
    and "\<forall>xs. distinct (list_set E xs) \<and> set (list_set E xs) = set xs"
    and "set (input_variables rp) \<subseteq> fst ` set (kernels rp)"
  shows "\<exists>fs. features_to_drop E app rp = Inr fs \<and> distinct fs \<and>
           set fs = set (input_variables rp) \<union>
             {function_call k |key k. key \<in> set (input_variables rp) \<and> map_of (kernels rp) key = Some k}"
proof -
  from assms(3) obtain cs where cs: "function_calls (kernels rp) (input_variables rp) = Inr cs"
    using function_calls_ok by blast
  have "features_to_drop E app rp = Inr (list_set E (input_variables rp @ cs))"
    using assms(1) cs by (simp add: features_to_drop_def)
  moreover have "set (list_set E (input_variables rp @ cs)) =
      set (input_variables rp) \<union>
        {function_call k |key k. key \<in> set (input_variables rp) \<and> map_of (kernels rp) key = Some k}"
    using assms(2) function_calls_set [OF cs] by simp
  ultimately show ?thesis using assms(2) by simp
qed

theorem derived_features_to_drop_witness:
  "map_of (toy_app ''S1'' []) ''features_to_drop'' = Some VNone
   \<and> set (input_variables toy_rp) \<subseteq> fst ` set (kernels toy_rp)
   \<and> features_to_drop (toy_env [] False) (toy_app ''S1'' []) toy_rp =
       Inr [''licks'', ''running'', ''discrete'', ''continuous'']
   \<and> (\<exists>fs. features_to_drop (toy_env [] False) (toy_app ''S1'' []) toy_rp = Inr fs \<and> distinct fs \<and>
           set fs = set (input_variables toy_rp) \<union>
             {function_call k |key k. key \<in> set (input_variables toy_rp) \<and> map_of (kernels toy_rp) key = Some k})"
proof -
  have 1: "map_of (toy_app ''S1'' []) ''features_to_drop'' = Some VNone"
    by code_simp
  have 2: "\<forall>xs. distinct (list_set (toy_env [] False) xs) \<and> set (list_set (toy_env [] False) xs) = set xs"
    by (simp add: toy_env_def)
  have 3: "set (input_variables toy_rp) \<subseteq> fst ` set (kernels toy_rp)"
    by (simp add: toy_rp_def)
  have 4: "features_to_drop (toy_env [] False) (toy_app ''S1'' []) toy_rp =
       Inr [''licks'', ''running'', ''discrete'', ''continuous'']"
    by code_simp
  from derived_features_to_drop [OF 1 2 3] 1 3 4 show ?thesis
    by blast
qed

section \<open>C8: the order of the override sources\<close>

text \<open>
  C8: the parameters main builds are the command-line values of the fields of
  \<^verbatim>\<open>AppParams\<close> merged with the override map, the override map winning on every key it
  holds. In general, two override maps applied one after the other give the assignment
  of the single merged map in which the later one wins on every conflicting key; applied
  in either order they give the same assignment when their keys are disjoint.
\<close>

theorem overrides_later_wins:
  assumes "distinct (map fst (override_params a))"
    and "distinct (map fst o1)" and "distinct (map fst o2)"
  shows "map_of (main_app_params a) =
           (\<lambda>k. if k \<in> set AppParams_fields then getattr_args a k else None)
             ++ map_of (override_params a)
       \<and> (\<forall>k v. (k, v) \<in> set (override_params a) \<longrightarrow> map_of (main_app_params a) k = Some v)
       \<and> map_of (apply_overrides o2 (apply_overrides o1 d)) = map_of d ++ (map_of o1 ++ map_of o2)
       \<and> map_of (apply_overrides o2 (apply_overrides o1 d)) =
           map_of (apply_overrides (apply_overrides o2 o1) d)
       \<and> (fst ` set o1 \<inter> fst ` set o2 = {} \<longrightarrow>
            map_of (apply_overrides o2 (apply_overrides o1 d)) =
            map_of (apply_overrides o1 (apply_overrides o2 d)))"
proof -
  have cli: "map_of (cli_app_params AppParams_fields (getattr_args a)) =
      (\<lambda>k. if k \<in> set AppParams_fields then getattr_args a k else None)"
    by (rule ext) (rule map_of_cli_app_params)
  have 1: "map_of (main_app_params a) =
           (\<lambda>k. if k \<in> set AppParams_fields then getattr_args a k else None)
             ++ map_of (override_params a)"
    by (simp add: main_app_params_def map_of_apply_overrides map_of_rev_distinct [OF assms(1)] cli)
  have 2: "\<forall>k v. (k, v) \<in> set (override_params a) \<longrightarrow> map_of (main_app_params a) k = Some v"
    using assms(1) by (simp add: 1 map_add_def)
  have seq: "map_of (apply_overrides o2 (apply_overrides o1 d)) = map_of d ++ (map_of o1 ++ map_of o2)"
    by (simp add: map_of_apply_overrides map_of_rev_distinct [OF assms(2)]
          map_of_rev_distinct [OF assms(3)])
  have "distinct (map fst (apply_overrides o2 o1))"
    using assms(2) by (rule distinct_apply_overrides)
  then have merged: "map_of (apply_overrides (apply_overrides o2 o1) d) =
      map_of d ++ (map_of o1 ++ map_of o2)"
    by (simp add: map_of_apply_overrides [of "apply_overrides o2 o1" d] map_of_rev_distinct
          map_of_apply_overrides [of o2 o1] map_of_rev_distinct [OF assms(3)])
  have swap: "map_of (apply_overrides o1 (apply_overrides o2 d)) = map_of d ++ (map_of o2 ++ map_of o1)"
    by (simp add: map_of_apply_overrides map_of_rev_distinct [OF assms(2)]
          map_of_rev_distinct [OF assms(3)])
  have 5: "fst ` set o1 \<inter> fst ` set o2 = {} \<longrightarrow>
            map_of (apply_overrides o2 (apply_overrides o1 d)) =
            map_of (apply_overrides o1 (apply_overrides o2 d))"
  proof
    assume "fst ` set o1 \<inter> fst ` set o2 = {}"
    then have "dom (map_of o1) \<inter> dom (map_of o2) = {}"
      by (simp add: dom_map_of_conv_image_fst)
    then have "map_of o1 ++ map_of o2 = map_of o2 ++ map_of o1"
      by (rule map_add_comm)
    with seq swap show "map_of (apply_overrides o2 (apply_overrides o1 d)) =
            map_of (apply_overrides o1 (apply_overrides o2 d))"
      by simp
  qed
  from 1 2 seq merged 5 show ?thesis by simp
qed

theorem overrides_later_wins_witness:
  "distinct (map fst (override_params
      \<lparr>arg_session_id = None, arg_test = 0,
       arg_fields = [(''spike_bin_width'', VNum (1 / 10)), (''time_of_interest'', VStr ''full_trial'')],
       override_params = [(''spike_bin_width'', VNum (1 / 2)), (''input_variables'', VStrs [''licks''])]\<rparr>))
   \<and> main_app_params
      \<lparr>arg_session_id = None, arg_test = 0,
       arg_fields = [(''spike_bin_width'', VNum (1 / 10)), (''time_of_interest'', VStr ''full_trial'')],
       override_params = [(''spike_bin_width'', VNum (1 / 2)), (''input_variables'', VStrs [''licks''])]\<rparr> =
     [(''time_of_interest'', VStr ''full_trial''), (''spike_bin_width'', VNum (1 / 2)),
      (''input_variables'', VStrs [''licks''])]
   \<and> map_of (main_app_params
      \<lparr>arg_session_id = None, arg_test = 0,
       arg_fields = [(''spike_bin_width'', VNum (1 / 10)), (''time_of_interest'', VStr ''full_trial'')],
       override_params = [(''spike_bin_width'', VNum (1 / 2)), (''input_variables'', VStrs [''licks''])]\<rparr>)
       ''spike_bin_width'' = Some (VNum (1 / 2))
   \<and> map_of (apply_overrides [(''b'', 2 :: nat)] (apply_overrides [(''a'', 1)] [(''a'', 0), (''c'', 3)])) =
     map_of (apply_overrides [(''a'', 1)] (apply_overrides [(''b'', 2)] [(''a'', 0), (''c'', 3)]))"
proof -
  have 1: "distinct (map fst (override_params
      \<lparr>arg_session_id = None, arg_test = 0,
       arg_fields = [(''spike_bin_width'', VNum (1 / 10)), (''time_of_interest'', VStr ''full_trial'')],
       override_params = [(''spike_bin_width'', VNum (1 / 2)), (''input_variables'', VStrs [''licks''])]\<rparr>))"
    by simp
  have 2: "distinct (map fst [(''a'', 1 :: nat)])" and 3: "distinct (map fst [(''b'', 2 :: nat)])"
    by simp_all
  have 4: "main_app_params
      \<lparr>arg_session_id = None, arg_test = 0,
       arg_fields = [(''spike_bin_width'', VNum (1 / 10)), (''time_of_interest'', VStr ''full_trial'')],
       override_params = [(''spike_bin_width'', VNum (1 / 2)), (''input_variables'', VStrs [''licks''])]\<rparr> =
     [(''time_of_interest'', VStr ''full_trial''), (''spike_bin_width'', VNum (1 / 2)),
      (''input_variables'', VStrs [''licks''])]"
    by code_simp
  have 5: "fst ` set [(''a'', 1 :: nat)] \<inter> fst ` set [(''b'', 2 :: nat)] = {}"
    by simp
  note inst = overrides_later_wins [OF 1 2 3, of "[(''a'', 0), (''c'', 3)]"]
  from inst have "map_of (main_app_params
      \<lparr>arg_session_id = None, arg_test = 0,
       arg_fields = [(''spike_bin_width'', VNum (1 / 10)), (''time_of_interest'', VStr ''full_trial'')],
       override_params = [(''spike_bin_width'', VNum (1 / 2)), (''input_variables'', VStrs [''licks''])]\<rparr>)
       ''spike_bin_width'' = Some (VNum (1 / 2))"
    by simp
  moreover from inst 5 have
    "map_of (apply_overrides [(''b'', 2 :: nat)] (apply_overrides [(''a'', 1)] [(''a'', 0), (''c'', 3)])) =
     map_of (apply_overrides [(''a'', 1)] (apply_overrides [(''b'', 2)] [(''a'', 0), (''c'', 3)]))"
    by blast
  ultimately show ?thesis using 1 4 by blast
qed

section \<open>C9: the order of the features\<close>

text \<open>
  C9, as claimed: the reduced design matrices a run produces do not depend on the order
  in which the candidate features are iterated, and two runs on identical inputs yield
  identical reduced matrices. An exception ends the loop, so the features processed are
  those iterated before the one that raises, and the order of \<^verbatim>\<open>list(set(...))\<close> is not
  fixed. With the features pupil and licks and a library that refuses pupil: the run
  that iterates pupil first writes no reduced artifact, the run that iterates licks first
  writes the one of licks. The library and every input are the same in both runs.
\<close>

theorem dropout_order_counterexample:
  "features_to_drop (toy_env [] True)
      (toy_app ''S1'' [(''features_to_drop'', VStrs [''pupil'', ''licks''])]) toy_rp =
     Inr [''pupil'', ''licks'']
   \<and> features_to_drop toy_strict_rev
      (toy_app ''S1'' [(''features_to_drop'', VStrs [''pupil'', ''licks''])]) toy_rp =
     Inr [''licks'', ''pupil'']
   \<and> failure_listing (process_session (toy_env [] True) ''S1''
         (toy_app ''S1'' [(''features_to_drop'', VStrs [''pupil'', ''licks''])]) 0 empty_world) =
       Some (LibraryError ''unknown drop variable'',
             [(''/results/full'', ''S1_fullmodel_inputs.pkl'',
               [''licks_0'', ''licks_1'', ''running_0''], ''fullmodel'')])
   \<and> failure_listing (process_session toy_strict_rev ''S1''
         (toy_app ''S1'' [(''features_to_drop'', VStrs [''pupil'', ''licks''])]) 0 empty_world) =
       Some (LibraryError ''unknown drop variable'',
             [(''/results/full'', ''S1_fullmodel_inputs.pkl'',
               [''licks_0'', ''licks_1'', ''running_0''], ''fullmodel''),
              (''/results/reduced'', ''S1_drop_licks_inputs.pkl'', [''running_0''], ''fullmodel'')])"
  by code_simp

text \<open>
  C9, amended: for a fixed frame (parameters, full design matrix, fit record) and a fixed
  library (what \<^verbatim>\<open>validate_params\<close> and \<^verbatim>\<open>get_params\<close> return), what the iteration of a
  feature writes on its own is the same in every run, and the loop never changes the
  frame (no cross-feature mutation). A run in which no iteration raises writes, feature by
  feature, what each iteration writes on its own, so the reduced design matrix of a feature
  depends neither on the order of the features nor on the other features in the list, and
  two such runs over the same set of features write the same set of files. A run in which
  an iteration raises writes just that for the features iterated before the one that
  raises, and nothing for the others: which reduced matrices exist then depends on the
  iteration order. Two runs that differ only in the iteration order of Python's sets
  consider the same set of candidate features.
\<close>

theorem dropout_order_independent:
  assumes "validate_params E2 = validate_params E1" and "get_params E2 = get_params E1"
  shows "step_writes E2 fr f = step_writes E1 fr f
       \<and> (\<forall>st1. dropout_loop E1 (fr, w) fs = Inr st1 \<longrightarrow>
            fst st1 = fr \<and> writes (snd st1) = writes w @ concat (map (step_writes E1 fr) fs))
       \<and> (\<forall>e w1. dropout_loop E1 (fr, w) fs = Inl (e, w1) \<longrightarrow>
            (\<exists>pre g post. fs = pre @ g # post
               \<and> writes w1 = writes w @ concat (map (step_writes E1 fr) pre)
               \<and> dropout_step E1 (fr, w1) g = Inl (e, w1)))
       \<and> (\<forall>st1 st2. dropout_loop E1 (fr, w) fs = Inr st1 \<longrightarrow> dropout_loop E2 (fr, w) gs = Inr st2 \<longrightarrow>
            set fs = set gs \<longrightarrow> set (writes (snd st1)) = set (writes (snd st2)))
       \<and> (\<forall>cs1 cs2. (\<forall>xs. set (list_set E1 xs) = set xs) \<longrightarrow> (\<forall>xs. set (list_set E2 xs) = set xs) \<longrightarrow>
            features_to_drop E1 (fr_app_params fr) (fr_run_params fr) = Inr cs1 \<longrightarrow>
            features_to_drop E2 (fr_app_params fr) (fr_run_params fr) = Inr cs2 \<longrightarrow> set cs1 = set cs2)"
proof -
  have env: "step_writes E2 fr = step_writes E1 fr"
    by (rule ext) (rule step_writes_env [OF assms])
  have 1: "step_writes E2 fr f = step_writes E1 fr f"
    by (rule step_writes_env [OF assms])
  have 2: "\<forall>st1. dropout_loop E1 (fr, w) fs = Inr st1 \<longrightarrow>
            fst st1 = fr \<and> writes (snd st1) = writes w @ concat (map (step_writes E1 fr) fs)"
  proof (intro allI impI)
    fix st1 assume "dropout_loop E1 (fr, w) fs = Inr st1"
    then have "st1 = (fr, w\<lparr>writes := writes w @ concat (map (step_writes E1 fr) fs)\<rparr>)"
      by (rule dropout_loop_writes)
    then show "fst st1 = fr \<and> writes (snd st1) = writes w @ concat (map (step_writes E1 fr) fs)"
      by simp
  qed
  have 3: "\<forall>e w1. dropout_loop E1 (fr, w) fs = Inl (e, w1) \<longrightarrow>
            (\<exists>pre g post. fs = pre @ g # post
               \<and> writes w1 = writes w @ concat (map (step_writes E1 fr) pre)
               \<and> dropout_step E1 (fr, w1) g = Inl (e, w1))"
  proof (intro allI impI)
    fix e w1 assume "dropout_loop E1 (fr, w) fs = Inl (e, w1)"
    from dropout_loop_Inl_writes [OF this] obtain pre g post where
      "fs = pre @ g # post"
      "w1 = w\<lparr>writes := writes w @ concat (map (step_writes E1 fr) pre)\<rparr>"
      "dropout_step E1 (fr, w1) g = Inl (e, w1)"
      by blast
    then have "fs = pre @ g # post
               \<and> writes w1 = writes w @ concat (map (step_writes E1 fr) pre)
               \<and> dropout_step E1 (fr, w1) g = Inl (e, w1)"
      by simp
    then show "\<exists>pre g post. fs = pre @ g # post
               \<and> writes w1 = writes w @ concat (map (step_writes E1 fr) pre)
               \<and> dropout_step E1 (fr, w1) g = Inl (e, w1)"
      by blast
  qed
  have 4: "\<forall>st1 st2. dropout_loop E1 (fr, w) fs = Inr st1 \<longrightarrow> dropout_loop E2 (fr, w) gs = Inr st2 \<longrightarrow>
            set fs = set gs \<longrightarrow> set (writes (snd st1)) = set (writes (snd st2))"
  proof (intro allI impI)
    fix st1 st2
    assume a: "dropout_loop E1 (fr, w) fs = Inr st1" and b: "dropout_loop E2 (fr, w) gs = Inr st2"
      and c: "set fs = set gs"
    from dropout_loop_writes [OF a] dropout_loop_writes [OF b] env
    have "writes (snd st1) = writes w @ concat (map (step_writes E1 fr) fs)"
      and "writes (snd st2) = writes w @ concat (map (step_writes E1 fr) gs)"
      by simp_all
    with c show "set (writes (snd st1)) = set (writes (snd st2))"
      by simp
  qed
  have 5: "\<forall>cs1 cs2. (\<forall>xs. set (list_set E1 xs) = set xs) \<longrightarrow> (\<forall>xs. set (list_set E2 xs) = set xs) \<longrightarrow>
            features_to_drop E1 (fr_app_params fr) (fr_run_params fr) = Inr cs1 \<longrightarrow>
            features_to_drop E2 (fr_app_params fr) (fr_run_params fr) = Inr cs2 \<longrightarrow> set cs1 = set cs2"
    by (intro allI impI) (rule features_to_drop_set)
  from 1 2 3 4 5 show ?thesis by blast
qed

theorem dropout_order_independent_witness:
  "validate_params toy_env_rev = validate_params (toy_env [] False)
   \<and> get_params toy_env_rev = get_params (toy_env [] False)
   \<and> features_to_drop (toy_env [] False) (toy_app ''S1'' []) toy_rp =
       Inr [''licks'', ''running'', ''discrete'', ''continuous'']
   \<and> features_to_drop toy_env_rev (toy_app ''S1'' []) toy_rp =
       Inr [''continuous'', ''discrete'', ''running'', ''licks'']
   \<and> dropout_loop (toy_env [] False) (toy_frame [] [], results_world)
         [''licks'', ''running'', ''discrete'', ''continuous''] =
       Inr (projr (dropout_loop (toy_env [] False) (toy_frame [] [], results_world)
         [''licks'', ''running'', ''discrete'', ''continuous'']))
   \<and> dropout_loop toy_env_rev (toy_frame [] [], results_world)
         [''continuous'', ''discrete'', ''running'', ''licks''] =
       Inr (projr (dropout_loop toy_env_rev (toy_frame [] [], results_world)
         [''continuous'', ''discrete'', ''running'', ''licks'']))
   \<and> set (writes (snd (projr (dropout_loop (toy_env [] False) (toy_frame [] [], results_world)
         [''licks'', ''running'', ''discrete'', ''continuous''])))) =
     set (writes (snd (projr (dropout_loop toy_env_rev (toy_frame [] [], results_world)
         [''continuous'', ''discrete'', ''running'', ''licks'']))))
   \<and> writes (snd (projr (dropout_loop (toy_env [] False) (toy_frame [] [], results_world)
         [''licks'', ''running'', ''discrete'', ''continuous'']))) =
     writes results_world @ concat (map (step_writes (toy_env [] False) (toy_frame [] []))
         [''licks'', ''running'', ''discrete'', ''continuous''])
   \<and> listing (snd (projr (dropout_loop toy_env_rev (toy_frame [] [], results_world)
         [''continuous'', ''discrete'', ''running'', ''licks'']))) =
       [(''/results/reduced'', ''S1_drop_continuous_inputs.pkl'', [''licks_0'', ''licks_1''], ''fullmodel''),
        (''/results/reduced'', ''S1_drop_discrete_inputs.pkl'', [''running_0''], ''fullmodel''),
        (''/results/reduced'', ''S1_drop_running_inputs.pkl'', [''licks_0'', ''licks_1''], ''fullmodel''),
        (''/results/reduced'', ''S1_drop_licks_inputs.pkl'', [''running_0''], ''fullmodel'')]
   \<and> dropout_loop (toy_env [] True) (toy_frame [] [], results_world) [''licks'', ''pupil'', ''running''] =
       Inl (LibraryError ''unknown drop variable'',
            results_world\<lparr>writes := step_writes (toy_env [] True) (toy_frame [] []) ''licks''\<rparr>)
   \<and> (\<exists>pre g post. [''licks'', ''pupil'', ''running''] = pre @ g # post
        \<and> writes (results_world\<lparr>writes := step_writes (toy_env [] True) (toy_frame [] []) ''licks''\<rparr>) =
            writes results_world @ concat (map (step_writes (toy_env [] True) (toy_frame [] [])) pre)
        \<and> dropout_step (toy_env [] True)
             (toy_frame [] [],
              results_world\<lparr>writes := step_writes (toy_env [] True) (toy_frame [] []) ''licks''\<rparr>) g =
            Inl (LibraryError ''unknown drop variable'',
                 results_world\<lparr>writes := step_writes (toy_env [] True) (toy_frame [] []) ''licks''\<rparr>))"
proof -
  have 1: "validate_params toy_env_rev = validate_params (toy_env [] False)"
    and 2: "get_params toy_env_rev = get_params (toy_env [] False)"
    by (simp_all add: toy_env_rev_def toy_env_def)
  have 3: "dropout_loop (toy_env [] False) (toy_frame [] [], results_world)
         [''licks'', ''running'', ''discrete'', ''continuous''] =
       Inr (projr (dropout_loop (toy_env [] False) (toy_frame [] [], results_world)
         [''licks'', ''running'', ''discrete'', ''continuous'']))"
    by code_simp
  have 4: "dropout_loop toy_env_rev (toy_frame [] [], results_world)
         [''continuous'', ''discrete'', ''running'', ''licks''] =
       Inr (projr (dropout_loop toy_env_rev (toy_frame [] [], results_world)
         [''continuous'', ''discrete'', ''running'', ''licks'']))"
    by code_simp
  have 5: "features_to_drop (toy_env [] False) (toy_app ''S1'' []) toy_rp =
       Inr [''licks'', ''running'', ''discrete'', ''continuous'']"
    by code_simp
  have 6: "features_to_drop toy_env_rev (toy_app ''S1'' []) toy_rp =
       Inr [''continuous'', ''discrete'', ''running'', ''licks'']"
    by code_simp
  have 7: "listing (snd (projr (dropout_loop toy_env_rev (toy_frame [] [], results_world)
         [''continuous'', ''discrete'', ''running'', ''licks'']))) =
       [(''/results/reduced'', ''S1_drop_continuous_inputs.pkl'', [''licks_0'', ''licks_1''], ''fullmodel''),
        (''/results/reduced'', ''S1_drop_discrete_inputs.pkl'', [''running_0''], ''fullmodel''),
        (''/results/reduced'', ''S1_drop_running_inputs.pkl'', [''licks_0'', ''licks_1''], ''fullmodel''),
        (''/results/reduced'', ''S1_drop_licks_inputs.pkl'', [''running_0''], ''fullmodel'')]"
    by code_simp
  have 8: "set [''licks'', ''running'', ''discrete'', ''continuous''] =
           set [''continuous'', ''discrete'', ''running'', ''licks'']"
    by auto
  note inst = dropout_order_independent [OF 1 2, of "toy_frame [] []" _ results_world
      "[''licks'', ''running'', ''discrete'', ''continuous'']"
      "[''continuous'', ''discrete'', ''running'', ''licks'']"]
  from inst 3 4 8
  have 9: "set (writes (snd (projr (dropout_loop (toy_env [] False) (toy_frame [] [], results_world)
         [''licks'', ''running'', ''discrete'', ''continuous''])))) =
     set (writes (snd (projr (dropout_loop toy_env_rev (toy_frame [] [], results_world)
         [''continuous'', ''discrete'', ''running'', ''licks'']))))"
    by blast
  from inst 3
  have 10: "writes (snd (projr (dropout_loop (toy_env [] False) (toy_frame [] [], results_world)
         [''licks'', ''running'', ''discrete'', ''continuous'']))) =
     writes results_world @ concat (map (step_writes (toy_env [] False) (toy_frame [] []))
         [''licks'', ''running'', ''discrete'', ''continuous''])"
    by blast
  have 11: "dropout_loop (toy_env [] True) (toy_frame [] [], results_world) [''licks'', ''pupil'', ''running''] =
       Inl (LibraryError ''unknown drop variable'',
            results_world\<lparr>writes := step_writes (toy_env [] True) (toy_frame [] []) ''licks''\<rparr>)"
    by code_simp
  have r1: "validate_params (toy_env [] True) = validate_params (toy_env [] True)"
    and r2: "get_params (toy_env [] True) = get_params (toy_env [] True)"
    by simp_all
  from dropout_order_independent [OF r1 r2, of "toy_frame [] []" _ results_world
      "[''licks'', ''pupil'', ''running'']", THEN conjunct2, THEN conjunct2, THEN conjunct1,
      rule_format, OF 11]
  have 12: "\<exists>pre g post. [''licks'', ''pupil'', ''running''] = pre @ g # post
        \<and> writes (results_world\<lparr>writes := step_writes (toy_env [] True) (toy_frame [] []) ''licks''\<rparr>) =
            writes results_world @ concat (map (step_writes (toy_env [] True) (toy_frame [] [])) pre)
        \<and> dropout_step (toy_env [] True)
             (toy_frame [] [],
              results_world\<lparr>writes := step_writes (toy_env [] True) (toy_frame [] []) ''licks''\<rparr>) g =
            Inl (LibraryError ''unknown drop variable'',
                 results_world\<lparr>writes := step_writes (toy_env [] True) (toy_frame [] []) ''licks''\<rparr>)" .
  from 1 2 5 6 3 4 9 10 7 11 12 show ?thesis
    by (intro conjI) assumption+
qed

section \<open>C10: an empty list of features to drop\<close>

text \<open>
  C10: a \<^verbatim>\<open>features_to_drop\<close> that is the empty list is treated as an unset one: the
  candidate list is the one derived from the input variables and the function calls of
  their kernels.
\<close>

theorem empty_features_to_drop_is_unset:
  "features_to_drop E (AList.update ''features_to_drop'' (VStrs []) app) rp =
   features_to_drop E (AList.update ''features_to_drop'' VNone app) rp
   \<and> features_to_drop E (AList.update ''features_to_drop'' (VStrs []) app) rp =
     (case function_calls (kernels rp) (input_variables rp) of
        Inl e \<Rightarrow> Inl e
      | Inr cs \<Rightarrow> Inr (list_set E (input_variables rp @ cs)))"
  by (simp add: features_to_drop_def update_conv')

theorem empty_features_to_drop_is_unset_witness:
  "features_to_drop (toy_env [] False)
      (AList.update ''features_to_drop'' (VStrs []) (toy_app ''S1'' []))
      \<lparr>input_variables = [''licks'', ''running''],
       kernels = [(''licks'', \<lparr>function_call = ''discrete'', kernel_args = []\<rparr>),
                  (''running'', \<lparr>function_call = ''continuous'', kernel_args = []\<rparr>)],
       model_label = ''fullmodel'', other_params = []\<rparr>
   = features_to_drop (toy_env [] False)
      (AList.update ''features_to_drop'' VNone (toy_app ''S1'' []))
      \<lparr>input_variables = [''licks'', ''running''],
       kernels = [(''licks'', \<lparr>function_call = ''discrete'', kernel_args = []\<rparr>),
                  (''running'', \<lparr>function_call = ''continuous'', kernel_args = []\<rparr>)],
       model_label = ''fullmodel'', other_params = []\<rparr>
   \<and> features_to_drop (toy_env [] False)
      (AList.update ''features_to_drop'' VNone (toy_app ''S1'' []))
      \<lparr>input_variables = [''licks'', ''running''],
       kernels = [(''licks'', \<lparr>function_call = ''discrete'', kernel_args = []\<rparr>),
                  (''running'', \<lparr>function_call = ''continuous'', kernel_args = []\<rparr>)],
       model_label = ''fullmodel'', other_params = []\<rparr>
   = Inr [''licks'', ''running'', ''discrete'', ''continuous'']"
proof
  show "features_to_drop (toy_env [] False)
      (AList.update ''features_to_drop'' (VStrs []) (toy_app ''S1'' []))
      \<lparr>input_variables = [''licks'', ''running''],
       kernels = [(''licks'', \<lparr>function_call = ''discrete'', kernel_args = []\<rparr>),
                  (''running'', \<lparr>function_call = ''continuous'', kernel_args = []\<rparr>)],
       model_label = ''fullmodel'', other_params = []\<rparr>
   = features_to_drop (toy_env [] False)
      (AList.update ''features_to_drop'' VNone (toy_app ''S1'' []))
      \<lparr>input_variables = [''licks'', ''running''],
       kernels = [(''licks'', \<lparr>function_call = ''discrete'', kernel_args = []\<rparr>),
                  (''running'', \<lparr>function_call = ''continuous'', kernel_args = []\<rparr>)],
       model_label = ''fullmodel'', other_params = []\<rparr>"
    by (rule conjunct1 [OF empty_features_to_drop_is_unset])
next
  show "features_to_drop (toy_env [] False)
      (AList.update ''features_to_drop'' VNone (toy_app ''S1'' []))
      \<lparr>input_variables = [''licks'', ''running''],
       kernels = [(''licks'', \<lparr>function_call = ''discrete'', kernel_args = []\<rparr>),
                  (''running'', \<lparr>function_call = ''continuous'', kernel_args = []\<rparr>)],
       model_label = ''fullmodel'', other_params = []\<rparr>
   = Inr [''licks'', ''running'', ''discrete'', ''continuous'']"
    by (simp add: features_to_drop_def update_conv' toy_env_def)
qed

end
